theory Spec2Isabelle
  imports Complex_Main
begin

section \<open>Values\<close>

text \<open>
  A pitch of \<^verbatim>\<open>dist/tonal.js\<close> is an array \<^verbatim>\<open>['tnl', fifths, octaves, direction]\<close>
  whose length tells the variant: \<^verbatim>\<open>['tnl', f]\<close> is a pitch class, \<^verbatim>\<open>['tnl', f, o]\<close>
  the pitch of a note, \<^verbatim>\<open>['tnl', f, o, d]\<close> an interval. The datatype has one
  constructor per length; the entries are JavaScript numbers that hold integers.
  Arrays of another length, and arrays with an entry that is not an integer, are
  not values of the model.
\<close>

datatype pitch = PC int | Note int int | Ivl int int int

text \<open>
  The values the exported functions are applied to and return: \<^verbatim>\<open>undefined\<close>,
  \<^verbatim>\<open>null\<close>, \<^verbatim>\<open>NaN\<close>, an integer number, a string, a pitch in array notation, or
  an object that is neither a string nor an array: \<open>JObject\<close> stands for the
  functions and the prototype object that every object of the language inherits
  as properties (\<^verbatim>\<open>cache['constructor']\<close> is one). \<open>JOutside\<close> is no value: it
  marks a result that the model does not determine, because the source computes
  it from an object that is not a pitch (an array that holds \<^verbatim>\<open>NaN\<close>, then a
  string of it or an exception). No function of the model is meant to be applied
  to it.

  Where a function returns a pitch or \<^verbatim>\<open>null\<close> and nothing else (the two parsers
  before the cache, the subtraction), its result is a \<open>pitch option\<close>, \<open>None\<close>
  being \<^verbatim>\<open>null\<close>.
\<close>

datatype jsval =
  JUndefined | JNull | JNaN | JNum int | JStr string | JPitch pitch | JObject | JOutside

fun ofPitch :: "pitch option \<Rightarrow> jsval" where
  "ofPitch None = JNull"
| "ofPitch (Some p) = JPitch p"

fun ofStr :: "string option \<Rightarrow> jsval" where
  "ofStr None = JNull"
| "ofStr (Some s) = JStr s"

text \<open>The result of an arithmetic expression: \<open>None\<close> is \<^verbatim>\<open>NaN\<close>.\<close>

fun ofNum :: "int option \<Rightarrow> jsval" where
  "ofNum None = JNaN"
| "ofNum (Some n) = JNum n"

text \<open>The entries \<^verbatim>\<open>p[1]\<close>, \<^verbatim>\<open>p[2]\<close> and \<^verbatim>\<open>p[3]\<close>; \<open>None\<close> is \<^verbatim>\<open>undefined\<close>.\<close>

fun el1 :: "pitch \<Rightarrow> int" where
  "el1 (PC f) = f"
| "el1 (Note f o') = f"
| "el1 (Ivl f o' d) = f"

fun el2 :: "pitch \<Rightarrow> int option" where
  "el2 (PC f) = None"
| "el2 (Note f o') = Some o'"
| "el2 (Ivl f o' d) = Some o'"

fun el3 :: "pitch \<Rightarrow> int option" where
  "el3 (PC f) = None"
| "el3 (Note f o') = None"
| "el3 (Ivl f o' d) = Some d"

subsection \<open>Predicates\<close>

text \<open>
  \<^verbatim>\<open>isPitch = (p) => p && p[0] === 'tnl'\<close>,
  \<^verbatim>\<open>isPitchClass = (p) => isPitch(p) && p.length === 2\<close>,
  \<^verbatim>\<open>hasOct = (p) => isPitch(p) && isNum(p[2])\<close>,
  \<^verbatim>\<open>isPitchNote = (p) => hasOct(p) && p.length === 3\<close>,
  \<^verbatim>\<open>isInterval = (i) => hasOct(i) && isNum(i[3])\<close>.
  They are false on every value that is not an array tagged \<^verbatim>\<open>'tnl'\<close>: on
  \<^verbatim>\<open>null\<close>, on a number, on a string (its first character is not \<^verbatim>\<open>'tnl'\<close>) and
  on a function or the prototype object (they have no property \<^verbatim>\<open>0\<close>).
\<close>

fun isPitch :: "jsval \<Rightarrow> bool" where
  "isPitch (JPitch p) = True"
| "isPitch _ = False"

fun isPitchClass :: "jsval \<Rightarrow> bool" where
  "isPitchClass (JPitch (PC f)) = True"
| "isPitchClass _ = False"

fun hasOct :: "jsval \<Rightarrow> bool" where
  "hasOct (JPitch p) = (el2 p \<noteq> None)"
| "hasOct _ = False"

fun isPitchNote :: "jsval \<Rightarrow> bool" where
  "isPitchNote (JPitch (Note f o')) = True"
| "isPitchNote _ = False"

fun isInterval :: "jsval \<Rightarrow> bool" where
  "isInterval (JPitch p) = (hasOct (JPitch p) \<and> el3 p \<noteq> None)"
| "isInterval _ = False"

section \<open>Pitch encoding\<close>

text \<open>
  \<^verbatim>\<open>FIFTHS = [0, 2, 4, -1, 1, 3, 5]\<close>, \<^verbatim>\<open>fifthsSpan = (f) => Math.floor(f * 7 / 12)\<close>,
  \<^verbatim>\<open>FIFTH_OCTS = FIFTHS.map(fifthsSpan)\<close>. On integers \<^verbatim>\<open>Math.floor(a / b)\<close> is
  the floor division \<open>div\<close> of \<open>int\<close>.
\<close>

definition FIFTHS :: "int list" where
  "FIFTHS = [0, 2, 4, -1, 1, 3, 5]"

definition fifthsSpan :: "int \<Rightarrow> int" where
  "fifthsSpan f = (f * 7) div 12"

definition FIFTH_OCTS :: "int list" where
  "FIFTH_OCTS = map fifthsSpan FIFTHS"

text \<open>
  \<^verbatim>\<open>encPC = (step, alt) => FIFTHS[step] + 7 * alt\<close> and
  \<^verbatim>\<open>encOct = (step, alt, oct) => oct - FIFTH_OCTS[step] - 4 * alt\<close>. Both are called
  by \<open>encode\<close> only, after its check that the step is in 0..6.
\<close>

definition encPC :: "int \<Rightarrow> int \<Rightarrow> int" where
  "encPC s a = FIFTHS ! nat s + 7 * a"

definition encOct :: "int \<Rightarrow> int \<Rightarrow> int \<Rightarrow> int" where
  "encOct s a oc = oc - FIFTH_OCTS ! nat s - 4 * a"

text \<open>
  \<^verbatim>\<open>
  function encode (step, alt, oct, dir) {
    if (step < 0 || step > 6) return null
    const pc = encPC(step, alt || 0)
    if (!isNum(oct)) return [ 'tnl', pc ]
    const o = encOct(step, alt, oct)
    if (!isNum(dir)) return [ 'tnl', pc, o ]
    const d = dir < 0 ? -1 : 1
    return [ 'tnl', d * pc, d * o, d ]
  }\<close>
  The step and the alteration are integers (on a number, \<^verbatim>\<open>alt || 0\<close> is \<^verbatim>\<open>alt\<close>);
  an octave or a direction that is not a number (\<^verbatim>\<open>undefined\<close>, \<^verbatim>\<open>null\<close>) is \<open>None\<close>.
\<close>

definition encode :: "int \<Rightarrow> int \<Rightarrow> int option \<Rightarrow> int option \<Rightarrow> pitch option" where
  "encode s a oc d =
     (if s < 0 \<or> s > 6 then None
      else let pc = encPC s a in
        case oc of
          None \<Rightarrow> Some (PC pc)
        | Some oc' \<Rightarrow>
            let o' = encOct s a oc' in
            (case d of
               None \<Rightarrow> Some (Note pc o')
             | Some d' \<Rightarrow>
                 let sg = (if d' < 0 then - 1 else 1) in
                 Some (Ivl (sg * pc) (sg * o') sg)))"

definition pitchClass :: "int \<Rightarrow> int \<Rightarrow> pitch option" where
  "pitchClass s a = encode s a None None"

definition notePitch :: "int \<Rightarrow> int \<Rightarrow> int option \<Rightarrow> pitch option" where
  "notePitch s a oc = encode s a oc None"

definition ivl :: "int \<Rightarrow> int \<Rightarrow> int option \<Rightarrow> int option \<Rightarrow> pitch option" where
  "ivl s a oc d = encode s a oc d"

section \<open>Pitch decoding\<close>

text \<open>
  The remainder \<^verbatim>\<open>%\<close> of JavaScript takes the sign of the dividend.
\<close>

definition jsRem :: "int \<Rightarrow> int \<Rightarrow> int" where
  "jsRem a b = sgn a * (\<bar>a\<bar> mod \<bar>b\<bar>)"

text \<open>
  \<^verbatim>\<open>
  function unaltered (f) {
    const i = (f + 1) % 7
    return i < 0 ? 7 + i : i
  }
  const decodeStep = (f) => STEPS[unaltered(f)]
  const decodeAlt = (f) => Math.floor((f + 1) / 7)
  const STEPS = [3, 0, 4, 1, 5, 2, 6]\<close>
\<close>

definition unaltered :: "int \<Rightarrow> int" where
  "unaltered f = (let i = jsRem (f + 1) 7 in if i < 0 then 7 + i else i)"

definition STEPS :: "int list" where
  "STEPS = [3, 0, 4, 1, 5, 2, 6]"

definition decodeStep :: "int \<Rightarrow> int" where
  "decodeStep f = STEPS ! nat (unaltered f)"

definition decodeAlt :: "int \<Rightarrow> int" where
  "decodeAlt f = (f + 1) div 7"

text \<open>
  \<^verbatim>\<open>
  function decode (p) {
    const s = decodeStep(p[1])
    const a = decodeAlt(p[1])
    const o = isNum(p[2]) ? p[2] + 4 * a + FIFTH_OCTS[s] : null
    return { step: s, alt: a, oct: o, dir: p[3] || null }
  }\<close>
  In \<^verbatim>\<open>p[3] || null\<close> a direction 0 is falsy and gives \<^verbatim>\<open>null\<close>, as a missing one does.
\<close>

record decoded =
  step :: int
  alt :: int
  oct :: "int option"
  dir :: "int option"

definition decode :: "pitch \<Rightarrow> decoded" where
  "decode p =
     (let s = decodeStep (el1 p);
          a = decodeAlt (el1 p);
          o' = (case el2 p of
                  Some p2 \<Rightarrow> Some (p2 + 4 * a + FIFTH_OCTS ! nat s)
                | None \<Rightarrow> None)
      in \<lparr> step = s, alt = a, oct = o',
           dir = (case el3 p of
                    Some d \<Rightarrow> if d = 0 then None else Some d
                  | None \<Rightarrow> None) \<rparr>)"

section \<open>External collaborators\<close>

text \<open>
  \<^verbatim>\<open>const noteParse = require('note-parser').parse\<close> and
  \<^verbatim>\<open>const ivlNttn = require('interval-notation')\<close> are packages of their own: the
  model takes what the source uses of them as parameters. \<open>noteParse\<close> returns
  \<^verbatim>\<open>null\<close> or an object of which \<^verbatim>\<open>step\<close>, \<^verbatim>\<open>alt\<close> and \<^verbatim>\<open>oct\<close> are read (\<^verbatim>\<open>oct\<close>
  is not a number for a name without octave); \<open>ivlParse\<close> returns \<^verbatim>\<open>null\<close> or an
  object of which \<^verbatim>\<open>simple\<close>, \<^verbatim>\<open>alt\<close>, \<^verbatim>\<open>oct\<close> and \<^verbatim>\<open>dir\<close> are read;
  \<open>ivlType\<close> is \<^verbatim>\<open>ivlNttn.type\<close> and \<open>altToQ\<close> is \<^verbatim>\<open>ivlNttn.altToQ\<close>, which
  returns the quality as a string. \<open>toNumber\<close> is the conversion of the language
  from a string to a number (in \<^verbatim>\<open>+val\<close>, \<^verbatim>\<open>val >= 0\<close> and \<^verbatim>\<open>val < 128\<close>), \<open>None\<close> when
  the string is not a number (\<^verbatim>\<open>NaN\<close>).
\<close>

record noteInfo =
  nStep :: int
  nAlt :: int
  nOct :: "int option"

record ivlInfo =
  iSimple :: int
  iAlt :: int
  iOct :: int
  iDir :: int

record ext =
  noteParse :: "string \<Rightarrow> noteInfo option"
  ivlParse :: "string \<Rightarrow> ivlInfo option"
  ivlType :: "int \<Rightarrow> string"
  altToQ :: "int \<Rightarrow> int \<Rightarrow> string"
  toNumber :: "string \<Rightarrow> int option"

section \<open>Pitch parsers\<close>

text \<open>
  \<^verbatim>\<open>
  const cache = {}
  const cached = (parser) => (str) => {
    if (typeof str !== 'string') return null
    return cache[str] || (cache[str] = parser(str))
  }\<close>
  The one object \<^verbatim>\<open>cache\<close> is shared by \<open>parseNote\<close> and \<open>parseIvl\<close>. It is the
  state of the module: every function that parses takes the cache and returns it
  with its result. The cache is the map from a property name to what
  \<^verbatim>\<open>cache[str]\<close> reads, \<open>None\<close> for \<^verbatim>\<open>undefined\<close>; the properties the object
  inherits are entries of the map as those it owns are. The cache of a fresh
  module, \<^verbatim>\<open>{}\<close>, owns nothing and inherits the properties of the prototype of
  objects, which the standard of the language and its annex B list; each is a
  function, or the prototype itself for \<^verbatim>\<open>__proto__\<close>.
\<close>

type_synonym cache = "string \<rightharpoonup> jsval"

definition inheritedNames :: "string list" where
  "inheritedNames =
     [''constructor'', ''hasOwnProperty'', ''isPrototypeOf'', ''propertyIsEnumerable'',
      ''toLocaleString'', ''toString'', ''valueOf'', ''__proto__'',
      ''__defineGetter__'', ''__defineSetter__'', ''__lookupGetter__'', ''__lookupSetter__'']"

definition freshCache :: cache where
  "freshCache = (\<lambda>str. if str \<in> set inheritedNames then Some JObject else None)"

text \<open>
  The test of \<^verbatim>\<open>a || b\<close>: \<^verbatim>\<open>undefined\<close>, \<^verbatim>\<open>null\<close>, \<^verbatim>\<open>NaN\<close>, 0 and the empty string are
  falsy, every object is truthy.
\<close>

fun truthy :: "jsval \<Rightarrow> bool" where
  "truthy JUndefined = False"
| "truthy JNull = False"
| "truthy JNaN = False"
| "truthy (JNum n) = (n \<noteq> 0)"
| "truthy (JStr s) = (s \<noteq> [])"
| "truthy (JPitch p) = True"
| "truthy JObject = True"
| "truthy JOutside = False"

text \<open>
  In \<open>cached\<close> the parser is one of the two of the module, which return a pitch
  or \<^verbatim>\<open>null\<close>. A truthy entry is returned as it is, whoever wrote it and whatever
  it is: so is an inherited property.
\<close>

definition cached :: "(string \<Rightarrow> pitch option) \<Rightarrow> cache \<Rightarrow> jsval \<Rightarrow> jsval \<times> cache" where
  "cached parser c v =
     (case v of
        JStr str \<Rightarrow>
          (case c str of
             Some e \<Rightarrow>
               if truthy e then (e, c)
               else (ofPitch (parser str), c(str \<mapsto> ofPitch (parser str)))
           | None \<Rightarrow> (ofPitch (parser str), c(str \<mapsto> ofPitch (parser str))))
      | _ \<Rightarrow> (JNull, c))"

text \<open>
  \<^verbatim>\<open>
  const parseNote = cached((str) => {
    const n = noteParse(str)
    return n ? notePitch(n.step, n.alt, n.oct) : null
  })
  const parseIvl = cached((str) => {
    const i = ivlNttn.parse(str)
    return i ? ivl(i.simple - 1, i.alt, i.oct, i.dir) : null
  })
  const parsePitch = (str) => parseNote(str) || parseIvl(str)\<close>
\<close>

definition noteOf :: "ext \<Rightarrow> string \<Rightarrow> pitch option" where
  "noteOf E str =
     (case noteParse E str of
        Some n \<Rightarrow> notePitch (nStep n) (nAlt n) (nOct n)
      | None \<Rightarrow> None)"

definition ivlOf :: "ext \<Rightarrow> string \<Rightarrow> pitch option" where
  "ivlOf E str =
     (case ivlParse E str of
        Some i \<Rightarrow> ivl (iSimple i - 1) (iAlt i) (Some (iOct i)) (Some (iDir i))
      | None \<Rightarrow> None)"

definition parseNote :: "ext \<Rightarrow> cache \<Rightarrow> jsval \<Rightarrow> jsval \<times> cache" where
  "parseNote E = cached (noteOf E)"

definition parseIvl :: "ext \<Rightarrow> cache \<Rightarrow> jsval \<Rightarrow> jsval \<times> cache" where
  "parseIvl E = cached (ivlOf E)"

definition parsePitch :: "ext \<Rightarrow> cache \<Rightarrow> jsval \<Rightarrow> jsval \<times> cache" where
  "parsePitch E c v =
     (case parseNote E c v of
        (r, c1) \<Rightarrow> if truthy r then (r, c1) else parseIvl E c1 v)"

section \<open>Pitch to string\<close>

text \<open>The string of an integer number, as the concatenation \<^verbatim>\<open>+\<close> with a string gives it.\<close>

fun digits :: "nat \<Rightarrow> string" where
  "digits n =
     (if n < 10 then [''0123456789'' ! n]
      else digits (n div 10) @ [''0123456789'' ! (n mod 10)])"

declare digits.simps [simp del]

definition numStr :: "int \<Rightarrow> string" where
  "numStr n = (if n < 0 then CHR ''-'' # digits (nat (- n)) else digits (nat n))"

text \<open>
  \<^verbatim>\<open>
  const toLetter = (s) => 'CDEFGAB'[s % 7]
  const fillStr = (s, num) => Array(Math.abs(num) + 1).join(s)
  const toAcc = (n) => fillStr(n < 0 ? 'b' : '#', n)
  const strNum = (n) => n !== null ? n : ''\<close>
  A negative remainder indexes the string out of range; the \<^verbatim>\<open>undefined\<close> it
  gives is concatenated as the text \<^verbatim>\<open>undefined\<close>. \<open>strNum\<close> is given as the text
  that its result adds to the string.
\<close>

definition toLetter :: "int \<Rightarrow> string" where
  "toLetter s =
     (let r = jsRem s 7 in if 0 \<le> r then [''CDEFGAB'' ! nat r] else ''undefined'')"

definition fillStr :: "string \<Rightarrow> int \<Rightarrow> string" where
  "fillStr s num = concat (replicate (nat \<bar>num\<bar>) s)"

definition toAcc :: "int \<Rightarrow> string" where
  "toAcc n = fillStr (if n < 0 then ''b'' else ''#'') n"

definition strNum :: "int option \<Rightarrow> string" where
  "strNum n = (case n of Some k \<Rightarrow> numStr k | None \<Rightarrow> [])"

text \<open>
  \<^verbatim>\<open>
  function strNote (n) {
    const p = isPitch(n) && !n[3] ? decode(n) : null
    return p ? toLetter(p.step) + toAcc(p.alt) + strNum(p.oct) : null
  }\<close>
  \<^verbatim>\<open>!n[3]\<close> holds when the array has no entry 3 and when the entry is 0.
\<close>

definition strNote :: "pitch \<Rightarrow> string option" where
  "strNote n =
     (if el3 n = None \<or> el3 n = Some 0
      then (let p = decode n in Some (toLetter (step p) @ toAcc (alt p) @ strNum (oct p)))
      else None)"

text \<open>
  \<^verbatim>\<open>
  const isAsc = (p) => p.dir === 1
  const isPerf = (p) => ivlNttn.type(p.step + 1) === 'P'
  const calcNum = (p) => isAsc(p) ? p.step + 1 + 7 * p.oct : (8 - p.step) - 7 * (p.oct + 1)
  const calcAlt = (p) => isAsc(p) ? p.alt : isPerf(p) ? -p.alt : -(p.alt + 1)\<close>
  In the arithmetic a \<^verbatim>\<open>null\<close> octave or direction counts as 0.
\<close>

definition nullAs0 :: "int option \<Rightarrow> int" where
  "nullAs0 n = (case n of Some k \<Rightarrow> k | None \<Rightarrow> 0)"

definition isAsc :: "decoded \<Rightarrow> bool" where
  "isAsc p = (dir p = Some 1)"

definition isPerf :: "ext \<Rightarrow> decoded \<Rightarrow> bool" where
  "isPerf E p = (ivlType E (step p + 1) = ''P'')"

definition calcNum :: "decoded \<Rightarrow> int" where
  "calcNum p =
     (if isAsc p then step p + 1 + 7 * nullAs0 (oct p)
      else (8 - step p) - 7 * (nullAs0 (oct p) + 1))"

definition calcAlt :: "ext \<Rightarrow> decoded \<Rightarrow> int" where
  "calcAlt E p = (if isAsc p then alt p else if isPerf E p then - alt p else - (alt p + 1))"

text \<open>
  \<^verbatim>\<open>
  function strIvl (pitch) {
    const p = isInterval(pitch) ? decode(pitch) : null
    if (!p) return null
    const num = calcNum(p)
    return p.dir * num + ivlNttn.altToQ(num, calcAlt(p))
  }
  const strPitch = (p) => p[3] ? strIvl(p) : strNote(p)\<close>
\<close>

definition strIvl :: "ext \<Rightarrow> pitch \<Rightarrow> string option" where
  "strIvl E pitch =
     (if isInterval (JPitch pitch)
      then (let p = decode pitch; num = calcNum p
            in Some (numStr (nullAs0 (dir p) * num) @ altToQ E num (calcAlt E p)))
      else None)"

definition strPitch :: "ext \<Rightarrow> pitch \<Rightarrow> string option" where
  "strPitch E p = (if el3 p \<noteq> None \<and> el3 p \<noteq> Some 0 then strIvl E p else strNote p)"

section \<open>Decorated functions\<close>

text \<open>
  \<^verbatim>\<open>
  const notation = (parse, str) => (v) => !isPitch(v) ? parse(v) : str(v)
  const asNote = notation(parseNote, id)
  const asIvl = notation(parseIvl, id)
  const asPitch = notation(parsePitch, id)
  const toNoteStr = notation(id, strNote)
  const toIvlStr = notation(id, strIvl)
  const toPitchStr = notation(id, strPitch)\<close>
  The decorator is named \<open>notationFn\<close> here.
\<close>

definition notationFn :: "(jsval \<Rightarrow> 'a) \<Rightarrow> (pitch \<Rightarrow> 'a) \<Rightarrow> jsval \<Rightarrow> 'a" where
  "notationFn parse str v = (case v of JPitch p \<Rightarrow> str p | _ \<Rightarrow> parse v)"

definition asNote :: "ext \<Rightarrow> cache \<Rightarrow> jsval \<Rightarrow> jsval \<times> cache" where
  "asNote E c = notationFn (parseNote E c) (\<lambda>p. (JPitch p, c))"

definition asIvl :: "ext \<Rightarrow> cache \<Rightarrow> jsval \<Rightarrow> jsval \<times> cache" where
  "asIvl E c = notationFn (parseIvl E c) (\<lambda>p. (JPitch p, c))"

definition asPitch :: "ext \<Rightarrow> cache \<Rightarrow> jsval \<Rightarrow> jsval \<times> cache" where
  "asPitch E c = notationFn (parsePitch E c) (\<lambda>p. (JPitch p, c))"

definition toNoteStr :: "jsval \<Rightarrow> jsval" where
  "toNoteStr = notationFn (\<lambda>v. v) (\<lambda>p. ofStr (strNote p))"

definition toIvlStr :: "ext \<Rightarrow> jsval \<Rightarrow> jsval" where
  "toIvlStr E = notationFn (\<lambda>v. v) (\<lambda>p. ofStr (strIvl E p))"

definition toPitchStr :: "ext \<Rightarrow> jsval \<Rightarrow> jsval" where
  "toPitchStr E = notationFn (\<lambda>v. v) (\<lambda>p. ofStr (strPitch E p))"

section \<open>Pitch properties\<close>

text \<open>
  \<^verbatim>\<open>
  const pitchOp = (parse, to) => (fn) => (v) => {
    const isP = isPitch(v)
    if (isP) return fn(v)
    const p = parse(v)
    return p ? to(fn(p)) : null
  }
  const ivlFn = pitchOp(parseIvl, toIvlStr)
  const simplify = ivlFn(function (i) {
    const d = i[3]
    const s = decodeStep(d * i[1])
    const a = decodeAlt(d * i[1])
    return [ 'tnl', i[1], -d * (FIFTH_OCTS[s] + 4 * a), d ]
  })
  const simplifyAsc = ivlFn((i) => {
    var s = simplify(i)
    return (s[3] === 1) ? s : ['tnl', s[1], s[2] + 1, 1]
  })\<close>
  On a value in array notation the decorated function is the function itself.
  \<open>simplify\<close> and \<open>simplifyAsc\<close> are modelled on that path, the one \<open>substr\<close> takes.
  For an array without direction the source computes with \<^verbatim>\<open>undefined\<close> and builds
  an array that holds \<^verbatim>\<open>NaN\<close>, which is not a pitch of the model: \<open>None\<close> there.
\<close>

fun simplify :: "pitch \<Rightarrow> pitch option" where
  "simplify (Ivl f o' d) =
     (let s = decodeStep (d * f);
          a = decodeAlt (d * f)
      in Some (Ivl f (- d * (FIFTH_OCTS ! nat s + 4 * a)) d))"
| "simplify _ = None"

fun simplifyAsc :: "pitch \<Rightarrow> pitch option" where
  "simplifyAsc i =
     (case simplify i of
        Some (Ivl f o' d) \<Rightarrow> if d = 1 then Some (Ivl f o' d) else Some (Ivl f (o' + 1) 1)
      | _ \<Rightarrow> None)"

text \<open>
  \<^verbatim>\<open>const height = (p) => p[1] * 7 + 12 * p[2]\<close>; without \<^verbatim>\<open>p[2]\<close> the result is
  \<^verbatim>\<open>NaN\<close>, here \<open>None\<close>.
\<close>

definition height :: "pitch \<Rightarrow> int option" where
  "height p = (case el2 p of Some p2 \<Rightarrow> Some (el1 p * 7 + 12 * p2) | None \<Rightarrow> None)"

section \<open>Midi pitch numbers and frequencies\<close>

text \<open>
  \<^verbatim>\<open>
  const isValue = (v) => v !== null && typeof v !== 'undefined'
  const isArr = Array.isArray
  const isMidi = (m) => isValue(m) && !isArr(m) && m >= 0 && m < 128\<close>
  The comparisons and \<^verbatim>\<open>+val\<close> convert their operand to a number: \<open>toNum\<close>, with
  \<open>None\<close> for \<^verbatim>\<open>NaN\<close>, which compares false. An array of two or more entries
  converts to \<^verbatim>\<open>NaN\<close>, and so do a function and the prototype object.
\<close>

definition isValue :: "jsval \<Rightarrow> bool" where
  "isValue v = (v \<noteq> JNull \<and> v \<noteq> JUndefined)"

definition isArr :: "jsval \<Rightarrow> bool" where
  "isArr v = (case v of JPitch p \<Rightarrow> True | _ \<Rightarrow> False)"

definition toNum :: "ext \<Rightarrow> jsval \<Rightarrow> int option" where
  "toNum E v =
     (case v of
        JUndefined \<Rightarrow> None
      | JNull \<Rightarrow> Some 0
      | JNaN \<Rightarrow> None
      | JNum n \<Rightarrow> Some n
      | JStr s \<Rightarrow> toNumber E s
      | JPitch p \<Rightarrow> None
      | JObject \<Rightarrow> None
      | JOutside \<Rightarrow> None)"

definition isMidi :: "ext \<Rightarrow> jsval \<Rightarrow> bool" where
  "isMidi E m =
     (isValue m \<and> \<not> isArr m
      \<and> (case toNum E m of Some n \<Rightarrow> 0 \<le> n | None \<Rightarrow> False)
      \<and> (case toNum E m of Some n \<Rightarrow> n < 128 | None \<Rightarrow> False))"

text \<open>
  \<^verbatim>\<open>
  const midi = function (val) {
    const p = asNote(val)
    return hasOct(p) ? height(p) + 12
      : isMidi(val) ? +val
      : null
  }\<close>
\<close>

definition midi :: "ext \<Rightarrow> cache \<Rightarrow> jsval \<Rightarrow> jsval \<times> cache" where
  "midi E c val =
     (let (p, c1) = asNote E c val
      in ((if hasOct p
             then ofNum (map_option (\<lambda>h. h + 12) (case p of JPitch q \<Rightarrow> height q | _ \<Rightarrow> None))
           else if isMidi E val then ofNum (toNum E val)
           else JNull), c1))"

text \<open>
  \<^verbatim>\<open>
  const wellTempered = (ref) => (pitch) => {
    const m = midi(pitch)
    return m ? Math.pow(2, (m - 69) / 12) * ref : null
  }
  const toFreq = wellTempered(440)\<close>
  The frequency is a real number here: the power and the product are exact, the
  rounding of floating point numbers is not modelled. \<open>None\<close> is \<^verbatim>\<open>null\<close>. The test
  \<^verbatim>\<open>m ?\<close> fails on \<^verbatim>\<open>null\<close>, on \<^verbatim>\<open>NaN\<close> and on the number 0.
\<close>

definition wellTempered :: "real \<Rightarrow> ext \<Rightarrow> cache \<Rightarrow> jsval \<Rightarrow> real option \<times> cache" where
  "wellTempered ref E c pitch =
     (let (m, c1) = midi E c pitch
      in ((case m of
             JNum n \<Rightarrow> if n = 0 then None else Some (2 powr ((real_of_int n - 69) / 12) * ref)
           | _ \<Rightarrow> None), c1))"

definition toFreq :: "ext \<Rightarrow> cache \<Rightarrow> jsval \<Rightarrow> real option \<times> cache" where
  "toFreq = wellTempered 440"

section \<open>Pitch distances\<close>

text \<open>
  \<^verbatim>\<open>
  const calcDir = (f, o) => 7 * f + 12 * o < 0 ? -1 : 1
  function trBy (i, p) {
    if (p === null) return null
    const f = i[1] + p[1]
    if (p.length === 2) return [ 'tnl', f ]
    const o = i[2] + p[2]
    if (p.length === 3) return [ 'tnl', f, o ]
    const d = 7 * f + 12 * o < 0 ? -1 : 1
    return [ 'tnl', f, o, calcDir(f, o) ]
  }\<close>
  \<open>transpose\<close> calls \<open>trBy\<close> with an interval as \<open>i\<close> and with what \<open>asPitch\<close>
  returns as \<open>p\<close>: \<^verbatim>\<open>null\<close>, a pitch, or an inherited property of the cache. On
  an object that is not \<^verbatim>\<open>null\<close> and not a pitch the entries \<^verbatim>\<open>p[1]\<close> and
  \<^verbatim>\<open>p[2]\<close> are \<^verbatim>\<open>undefined\<close>, the sums are \<^verbatim>\<open>NaN\<close>, and the array returned is
  not a pitch of the model: \<open>JOutside\<close>. The same holds for an \<open>i\<close> without
  the entry \<^verbatim>\<open>i[2]\<close> and a \<open>p\<close> with an octave.
\<close>

definition calcDir :: "int \<Rightarrow> int \<Rightarrow> int" where
  "calcDir f o' = (if 7 * f + 12 * o' < 0 then - 1 else 1)"

definition trBy :: "pitch \<Rightarrow> jsval \<Rightarrow> jsval" where
  "trBy i p =
     (case p of
        JNull \<Rightarrow> JNull
      | JPitch q \<Rightarrow>
          let f = el1 i + el1 q in
          (case q of
             PC qf \<Rightarrow> JPitch (PC f)
           | _ \<Rightarrow>
               (case (el2 i, el2 q) of
                  (Some i2, Some q2) \<Rightarrow>
                    let o' = i2 + q2 in
                    (case q of
                       Note qf qo \<Rightarrow> JPitch (Note f o')
                     | _ \<Rightarrow> JPitch (Ivl f o' (calcDir f o')))
                | _ \<Rightarrow> JOutside))
      | _ \<Rightarrow> JOutside)"

text \<open>
  \<^verbatim>\<open>
  function transpose (a, b) {
    if (arguments.length === 1) return (b) => transpose(a, b)
    const pa = asPitch(a)
    const pb = asPitch(b)
    const r = isInterval(pa) ? trBy(pa, pb)
      : isInterval(pb) ? trBy(pb, pa) : null
    return toPitchStr(r)
  }\<close>
  The call with one argument is the partial application of the model. The name
  \<open>transpose\<close> is taken by a function on lists; the model is \<open>transposePitch\<close>.
\<close>

definition transposePitch :: "ext \<Rightarrow> cache \<Rightarrow> jsval \<Rightarrow> jsval \<Rightarrow> jsval \<times> cache" where
  "transposePitch E c a b =
     (let (pa, c1) = asPitch E c a;
          (pb, c2) = asPitch E c1 b;
          r = (if isInterval pa then (case pa of JPitch i \<Rightarrow> trBy i pb | _ \<Rightarrow> JNull)
               else if isInterval pb then (case pb of JPitch i \<Rightarrow> trBy i pa | _ \<Rightarrow> JNull)
               else JNull)
      in (toPitchStr E r, c2))"

text \<open>
  \<^verbatim>\<open>
  const ivlp = (f, o) => ['tnl', f, o, calcDir(f, o)]
  const are = (type, a, b) => type(a) && type(b)
  function substr (a, b) {
    return are(isPitchClass, a, b) ? simplifyAsc(ivlp(b[1] - a[1], 0))
      : are(isPitchNote, a, b) ? ivlp(b[1] - a[1], b[2] - a[2])
      : are(isInterval, a, b) ? ivlp(b[1] - a[1], b[2] - a[2])
      : null
  }\<close>
  The three tests are the three patterns: both arrays of length 2, both of length
  3 with an octave, both with an octave and a direction. The result is a pitch
  or \<^verbatim>\<open>null\<close>.
\<close>

definition ivlp :: "int \<Rightarrow> int \<Rightarrow> pitch" where
  "ivlp f o' = Ivl f o' (calcDir f o')"

definition are :: "(jsval \<Rightarrow> bool) \<Rightarrow> jsval \<Rightarrow> jsval \<Rightarrow> bool" where
  "are type a b = (type a \<and> type b)"

fun substr :: "jsval \<Rightarrow> jsval \<Rightarrow> pitch option" where
  "substr (JPitch (PC a1)) (JPitch (PC b1)) = simplifyAsc (ivlp (b1 - a1) 0)"
| "substr (JPitch (Note a1 a2)) (JPitch (Note b1 b2)) = Some (ivlp (b1 - a1) (b2 - a2))"
| "substr (JPitch (Ivl a1 a2 a3)) (JPitch (Ivl b1 b2 b3)) = Some (ivlp (b1 - a1) (b2 - a2))"
| "substr a b = None"

text \<open>
  \<^verbatim>\<open>
  function distance (a, b) {
    if (arguments.length === 1) return (b) => distance(a, b)
    const pa = asPitch(a)
    const pb = asPitch(b)
    return toIvlStr(substr(pa, pb))
  }\<close>
\<close>

definition distance :: "ext \<Rightarrow> cache \<Rightarrow> jsval \<Rightarrow> jsval \<Rightarrow> jsval \<times> cache" where
  "distance E c a b =
     (let (pa, c1) = asPitch E c a;
          (pb, c2) = asPitch E c1 b
      in (toIvlStr E (ofPitch (substr pa pb)), c2))"

section \<open>The collaborators as the specification describes them\<close>

text \<open>
  The packages \<^verbatim>\<open>note-parser\<close> and \<^verbatim>\<open>interval-notation\<close> are not among the sources.
  The definitions of this section give the parameters a value, \<open>specExt\<close>, at
  which theorems are evaluated; the theorems themselves hold for every value of
  the parameters.
\<close>

text \<open>
  Modelled from the spec: the value of a decimal digit, for the octave of a note
  name and the number of an interval name (section 6); \<^verbatim>\<open>note-parser\<close> and
  \<^verbatim>\<open>interval-notation\<close> are missing.
\<close>

definition digitVal :: "char \<Rightarrow> nat option" where
  "digitVal = map_of (zip ''0123456789'' [0, 1, 2, 3, 4, 5, 6, 7, 8, 9])"

text \<open>
  Modelled from the spec: the value of a run of decimal digits, \<open>None\<close> when a
  character is no digit (section 6: the positive integer of an interval name, the
  integer of an octave); the parsers of \<^verbatim>\<open>note-parser\<close> and \<^verbatim>\<open>interval-notation\<close>
  are missing.
\<close>

fun decVal :: "nat \<Rightarrow> string \<Rightarrow> nat option" where
  "decVal acc [] = Some acc"
| "decVal acc (ch # cs) =
     (case digitVal ch of None \<Rightarrow> None | Some k \<Rightarrow> decVal (10 * acc + k) cs)"

text \<open>
  Modelled from the spec: a number is one digit or more (section 6); the parsers
  of \<^verbatim>\<open>note-parser\<close> and \<^verbatim>\<open>interval-notation\<close> are missing.
\<close>

definition readNat :: "string \<Rightarrow> nat option" where
  "readNat s = (if s = [] then None else decVal 0 s)"

text \<open>
  Modelled from the spec: the optional signed integer of an octave (section 6);
  the parser of \<^verbatim>\<open>note-parser\<close> is missing.
\<close>

definition readInt :: "string \<Rightarrow> int option" where
  "readInt s =
     (case s of
        [] \<Rightarrow> None
      | ch # cs \<Rightarrow>
          if ch = CHR ''-'' then map_option (\<lambda>n. - int n) (readNat cs)
          else map_option int (readNat s))"

text \<open>
  Modelled from the spec: the step of a letter is its place in \<^verbatim>\<open>CDEFGAB\<close>, 0 for
  C to 6 for B (sections 4.2 and 4.4); the parser of \<^verbatim>\<open>note-parser\<close> is missing.
\<close>

definition letterStep :: "char \<Rightarrow> int option" where
  "letterStep = map_of (zip ''CDEFGAB'' [0, 1, 2, 3, 4, 5, 6])"

text \<open>
  Modelled from the spec: \<^verbatim>\<open>parse\<close> of \<^verbatim>\<open>note-parser\<close>, which is missing. A note name
  (section 6) is a letter A-G, a run of \<^verbatim>\<open>#\<close> or a run of \<^verbatim>\<open>b\<close>, and an optional
  signed integer octave; the alteration counts the sharps, or the flats negatively
  (section 4.4). Any other text is not a note name.
\<close>

definition specNoteParse :: "string \<Rightarrow> noteInfo option" where
  "specNoteParse s =
     (case s of
        [] \<Rightarrow> None
      | l # rest \<Rightarrow>
          (case letterStep l of
             None \<Rightarrow> None
           | Some st \<Rightarrow>
               let sharps = takeWhile (\<lambda>ch. ch = CHR ''#'') rest;
                   flats = takeWhile (\<lambda>ch. ch = CHR ''b'') rest;
                   a = (if sharps \<noteq> [] then int (length sharps) else - int (length flats));
                   tl' = drop (nat \<bar>a\<bar>) rest
               in if tl' = [] then Some \<lparr> nStep = st, nAlt = a, nOct = None \<rparr>
                  else (case readInt tl' of
                          None \<Rightarrow> None
                        | Some oc \<Rightarrow> Some \<lparr> nStep = st, nAlt = a, nOct = Some oc \<rparr>)))"

text \<open>
  Modelled from the spec: \<^verbatim>\<open>type\<close> of \<^verbatim>\<open>interval-notation\<close>, which is missing. Unison,
  fourth and fifth, and the numbers an octave or more above them, are the perfect
  class \<^verbatim>\<open>P\<close>; the others are the major class \<^verbatim>\<open>M\<close> (section 4.4, glossary).
\<close>

definition specType :: "int \<Rightarrow> string" where
  "specType n = (if (n - 1) mod 7 \<in> {0, 3, 4} then ''P'' else ''M'')"

text \<open>
  Modelled from the spec: the alteration of a quality \<^verbatim>\<open>P\<close>, \<^verbatim>\<open>M\<close>, \<^verbatim>\<open>m\<close>, a run of
  \<^verbatim>\<open>A\<close> or a run of \<^verbatim>\<open>d\<close> (section 6) in a class, as the parser of
  \<^verbatim>\<open>interval-notation\<close>, which is missing, gives it: augmented counts upwards from
  perfect and from major, diminished downwards from perfect and from minor, which
  is one below major (section 4.4).
\<close>

definition qualAlt :: "string \<Rightarrow> string \<Rightarrow> int option" where
  "qualAlt t q =
     (if q = ''P'' then (if t = ''P'' then Some 0 else None)
      else if q = ''M'' then (if t = ''M'' then Some 0 else None)
      else if q = ''m'' then (if t = ''M'' then Some (- 1) else None)
      else if q \<noteq> [] \<and> q = replicate (length q) CHR ''A'' then Some (int (length q))
      else if q \<noteq> [] \<and> q = replicate (length q) CHR ''d''
        then Some (if t = ''P'' then - int (length q) else - int (length q) - 1)
      else None)"

text \<open>
  Modelled from the spec: \<^verbatim>\<open>altToQ\<close> of \<^verbatim>\<open>interval-notation\<close>, which is missing: the
  quality of an alteration in the class of the number, the inverse of \<open>qualAlt\<close>
  (section 4.4).
\<close>

definition specAltToQ :: "int \<Rightarrow> int \<Rightarrow> string" where
  "specAltToQ num a =
     (let t = specType num in
      if a = 0 then (if t = ''M'' then ''M'' else ''P'')
      else if a = - 1 \<and> t = ''M'' then ''m''
      else if 0 < a then replicate (nat a) CHR ''A''
      else replicate (nat (if t = ''P'' then - a else - a - 1)) CHR ''d'')"

text \<open>
  Modelled from the spec: \<^verbatim>\<open>parse\<close> of \<^verbatim>\<open>interval-notation\<close>, which is missing. An
  interval name (section 6) is an optional sign \<^verbatim>\<open>-\<close>, a positive number and a
  quality; the examples of the specification write the quality before the number
  and \<open>strIvl\<close> writes it after, so both orders are read. The number gives the
  simple number 1..7 and the count of octaves (section 4.3).
\<close>

definition specIvlParse :: "string \<Rightarrow> ivlInfo option" where
  "specIvlParse s =
     (let sg = (if take 1 s = ''-'' then - 1 else 1);
          body = (if take 1 s = ''-'' then drop 1 s else s);
          isDigit = (\<lambda>ch. digitVal ch \<noteq> None);
          ds = takeWhile isDigit body;
          q = (if ds \<noteq> [] then drop (length ds) body
               else takeWhile (\<lambda>ch. \<not> isDigit ch) body);
          numS = (if ds \<noteq> [] then ds else drop (length q) body)
      in case readNat numS of
           None \<Rightarrow> None
         | Some n \<Rightarrow>
             if n = 0 then None
             else let smp = (int n - 1) mod 7 + 1 in
               (case qualAlt (specType smp) q of
                  None \<Rightarrow> None
                | Some a \<Rightarrow>
                    Some \<lparr> iSimple = smp, iAlt = a, iOct = (int n - 1) div 7, iDir = sg \<rparr>))"

text \<open>
  The conversion of the language from a string to a number, for the strings that
  are an integer in decimal digits, and the empty string, which converts to 0.
  The other numeric forms of the language (blanks, a plus sign, a fraction, an
  exponent, another base) are not read; the one value used below is that of the
  name \<^verbatim>\<open>C\<close>, which is not a number.
\<close>

definition specToNumber :: "string \<Rightarrow> int option" where
  "specToNumber s = (if s = [] then Some 0 else readInt s)"

text \<open>
  Modelled from the spec: the collaborators together, in place of the missing
  packages \<^verbatim>\<open>note-parser\<close> and \<^verbatim>\<open>interval-notation\<close>.
\<close>

definition specExt :: ext where
  "specExt = \<lparr> noteParse = specNoteParse, ivlParse = specIvlParse,
               ivlType = specType, altToQ = specAltToQ, toNumber = specToNumber \<rparr>"

section \<open>The state of the cache\<close>

text \<open>
  \<open>holdsOnly c str r\<close>: under the string \<open>str\<close> the cache reads \<^verbatim>\<open>undefined\<close>, or
  \<^verbatim>\<open>null\<close>, or \<open>r\<close>. The cache of a fresh module, \<open>freshCache\<close>, is such a cache
  for every string that is not the name of an inherited property.
\<close>

definition holdsOnly :: "cache \<Rightarrow> string \<Rightarrow> pitch option \<Rightarrow> bool" where
  "holdsOnly c str r = (c str = None \<or> c str = Some JNull \<or> c str = Some (ofPitch r))"

text \<open>
  What \<open>parsePitch\<close> computes for a string when the cache does not answer: the
  note the string names, else the interval it names, else \<^verbatim>\<open>null\<close>.
\<close>

definition pitchOf :: "ext \<Rightarrow> string \<Rightarrow> pitch option" where
  "pitchOf E str = (case noteOf E str of Some p \<Rightarrow> Some p | None \<Rightarrow> ivlOf E str)"

section \<open>Facts about the encoding\<close>

text \<open>The wrap of \<open>unaltered\<close> is the remainder of the floor division.\<close>

lemma jsRem_7: "jsRem a 7 = (if a < 0 then - ((- a) mod 7) else a mod 7)"
  by (simp add: jsRem_def sgn_if abs_if)

lemma wrap7: "(let i = jsRem a 7 in if i < 0 then 7 + i else i) = a mod 7"
proof (cases "a < 0")
  case False
  then show ?thesis by (simp add: jsRem_7 Let_def)
next
  case True
  define r where "r = (- a) mod 7"
  have r: "0 \<le> r" by (simp add: r_def)
  have "a mod 7 = (if r = 0 then 0 else 7 - r)"
    unfolding r_def using zmod_zminus1_eq_if [of "- a" 7] by simp
  with True r show ?thesis
    by (simp add: jsRem_7 Let_def r_def [symmetric])
qed

lemma unaltered_mod: "unaltered f = (f + 1) mod 7"
  unfolding unaltered_def by (rule wrap7)

lemma decodeStep_shift: "decodeStep (f + 7 * k) = decodeStep f"
proof -
  have "(f + 7 * k + 1) mod 7 = (f + 1) mod 7"
    by (metis add.assoc add.commute mod_mult_self2)
  then show ?thesis by (simp add: decodeStep_def unaltered_mod)
qed

lemma decodeAlt_shift: "decodeAlt (f + 7 * k) = decodeAlt f + k"
proof -
  have "(f + 1 + 7 * k) div 7 = (f + 1) div 7 + k"
    by simp
  then show ?thesis by (simp add: decodeAlt_def add.commute add.left_commute)
qed

lemma step_cases:
  assumes "0 \<le> s" "s \<le> 6"
  obtains "s = 0" | "s = 1" | "s = 2" | "s = 3" | "s = 4" | "s = 5" | "s = (6::int)"
  using assms by arith

lemma decodeStep_encPC: "0 \<le> s \<Longrightarrow> s \<le> 6 \<Longrightarrow> decodeStep (encPC s a) = s"
  unfolding encPC_def decodeStep_shift
  by (erule (1) step_cases) (simp_all add: decodeStep_def unaltered_mod FIFTHS_def STEPS_def)

lemma decodeAlt_encPC: "0 \<le> s \<Longrightarrow> s \<le> 6 \<Longrightarrow> decodeAlt (encPC s a) = a"
  unfolding encPC_def decodeAlt_shift
  by (erule (1) step_cases) (simp_all add: decodeAlt_def FIFTHS_def)

lemma neg_encPC: "- encPC s a = - (FIFTHS ! nat s) + 7 * (- a)"
  by (simp add: encPC_def)

lemma decodeStep_neg_encPC:
  "0 \<le> s \<Longrightarrow> s \<le> 6 \<Longrightarrow> decodeStep (- encPC s a) = (7 - s) mod 7"
  unfolding neg_encPC decodeStep_shift
  by (erule (1) step_cases) (simp_all add: decodeStep_def unaltered_mod FIFTHS_def STEPS_def)

lemma decodeAlt_neg_encPC:
  "0 \<le> s \<Longrightarrow> s \<le> 6 \<Longrightarrow>
   decodeAlt (- encPC s a) = (if s = 0 \<or> s = 3 \<or> s = 4 then - a else - a - 1)"
  unfolding neg_encPC decodeAlt_shift
  by (erule (1) step_cases) (simp_all add: decodeAlt_def FIFTHS_def)

lemma decode_encode_note:
  assumes "0 \<le> s" "s \<le> 6"
  shows "map_option decode (encode s a (Some oc) None)
         = Some \<lparr> step = s, alt = a, oct = Some oc, dir = None \<rparr>"
  using assms
  by (simp add: encode_def decode_def Let_def decodeStep_encPC decodeAlt_encPC encOct_def)

lemma decode_encode_asc:
  assumes "0 \<le> s" "s \<le> 6"
  shows "map_option decode (encode s a (Some oc) (Some 1))
         = Some \<lparr> step = s, alt = a, oct = Some oc, dir = Some 1 \<rparr>"
  using assms
  by (simp add: encode_def decode_def Let_def decodeStep_encPC decodeAlt_encPC encOct_def)

lemma decode_encode_desc:
  assumes "0 \<le> s" "s \<le> 6"
  shows "map_option decode (encode s a (Some oc) (Some (- 1)))
         = Some \<lparr> step = (7 - s) mod 7,
                  alt = (if s = 0 \<or> s = 3 \<or> s = 4 then - a else - a - 1),
                  oct = Some (if s = 0 then - oc else - oc - 1),
                  dir = Some (- 1) \<rparr>"
proof -
  have enc: "encode s a (Some oc) (Some (- 1)) = Some (Ivl (- encPC s a) (- encOct s a oc) (- 1))"
    using assms by (simp add: encode_def Let_def)
  have dec: "decode (Ivl (- encPC s a) (- encOct s a oc) (- 1))
      = \<lparr> step = (7 - s) mod 7,
          alt = (if s = 0 \<or> s = 3 \<or> s = 4 then - a else - a - 1),
          oct = Some (- encOct s a oc + 4 * (if s = 0 \<or> s = 3 \<or> s = 4 then - a else - a - 1)
                      + FIFTH_OCTS ! nat ((7 - s) mod 7)),
          dir = Some (- 1) \<rparr>"
    by (simp add: decode_def Let_def decodeStep_neg_encPC [OF assms] decodeAlt_neg_encPC [OF assms])
  have o: "- encOct s a oc + 4 * (if s = 0 \<or> s = 3 \<or> s = 4 then - a else - a - 1)
             + FIFTH_OCTS ! nat ((7 - s) mod 7) = (if s = 0 then - oc else - oc - 1)"
    using assms
    by (elim step_cases) (simp_all add: encOct_def FIFTH_OCTS_def FIFTHS_def fifthsSpan_def)
  show ?thesis
    by (simp only: enc option.map dec o)
qed

lemma mod7_cases:
  fixes x :: int
  obtains "x mod 7 = 0" | "x mod 7 = 1" | "x mod 7 = 2" | "x mod 7 = 3"
        | "x mod 7 = 4" | "x mod 7 = 5" | "x mod 7 = 6"
proof -
  have "0 \<le> x mod 7" "x mod 7 < 7" by simp_all
  then show ?thesis using that by arith
qed

lemma decodeStep_range: "0 \<le> decodeStep f \<and> decodeStep f \<le> 6"
  unfolding decodeStep_def unaltered_mod
  by (rule mod7_cases [of "f + 1"]) (simp_all add: STEPS_def)

text \<open>Encoding what \<open>decode\<close> reads gives the coordinate back.\<close>

lemma encPC_decode: "encPC (decodeStep f) (decodeAlt f) = f"
proof -
  have split: "f + 1 = 7 * ((f + 1) div 7) + (f + 1) mod 7" by simp
  have "FIFTHS ! nat (STEPS ! nat ((f + 1) mod 7)) = (f + 1) mod 7 - 1"
    by (rule mod7_cases [of "f + 1"]) (simp_all add: STEPS_def FIFTHS_def)
  with split show ?thesis
    unfolding encPC_def decodeStep_def decodeAlt_def unaltered_mod by linarith
qed

text \<open>The function \<open>substr\<close> in the words of the source.\<close>

lemma substr_are:
  "substr a b =
     (if are isPitchClass a b
        then (case (a, b) of
                (JPitch x, JPitch y) \<Rightarrow> simplifyAsc (ivlp (el1 y - el1 x) 0)
              | _ \<Rightarrow> None)
      else if are isPitchNote a b \<or> are isInterval a b
        then (case (a, b) of
                (JPitch x, JPitch y) \<Rightarrow>
                  (case (el2 x, el2 y) of
                     (Some x2, Some y2) \<Rightarrow> Some (ivlp (el1 y - el1 x) (y2 - x2))
                   | _ \<Rightarrow> None)
              | _ \<Rightarrow> None)
      else None)"
  by (cases "(a, b)" rule: substr.cases) (simp_all add: are_def)

section \<open>Facts about the parsers and the cache\<close>

lemma fresh_not_inherited: "str \<notin> set inheritedNames \<Longrightarrow> freshCache str = None"
  by (simp add: freshCache_def)

lemma cached_holdsOnly:
  assumes "holdsOnly c str (parser str)"
  shows "cached parser c (JStr str) = (ofPitch (parser str), c(str \<mapsto> ofPitch (parser str)))"
proof (cases "c str")
  case None
  then show ?thesis by (simp add: cached_def)
next
  case (Some e)
  with assms have e: "e = JNull \<or> e = ofPitch (parser str)"
    by (auto simp: holdsOnly_def)
  show ?thesis
  proof (cases "truthy e")
    case False
    with Some show ?thesis by (simp add: cached_def)
  next
    case True
    with e have eq: "ofPitch (parser str) = e" by auto
    with Some have "c(str \<mapsto> ofPitch (parser str)) = c"
      by (simp add: fun_upd_idem)
    with True Some eq show ?thesis by (simp add: cached_def)
  qed
qed

lemma cached_hit: "c str = Some (JPitch p) \<Longrightarrow> cached parser c (JStr str) = (JPitch p, c)"
  by (simp add: cached_def)

lemma cached_inherited: "c str = Some JObject \<Longrightarrow> cached parser c (JStr str) = (JObject, c)"
  by (simp add: cached_def)

lemma cached_result:
  assumes "cached parser c v = (JPitch p, c1)"
  obtains str where "v = JStr str" "c1 str = Some (JPitch p)"
  using assms
  by (cases v) (auto simp: cached_def split: option.splits if_splits)

lemma cached_keeps:
  assumes "c str = Some (JPitch p)"
  shows "snd (cached parser c v) str = Some (JPitch p)"
  using assms
  by (cases v) (auto simp: cached_def split: option.splits)

lemma parseNote_holdsOnly:
  "holdsOnly c str (noteOf E str) \<Longrightarrow>
   parseNote E c (JStr str) = (ofPitch (noteOf E str), c(str \<mapsto> ofPitch (noteOf E str)))"
  unfolding parseNote_def by (rule cached_holdsOnly)

lemma holdsOnly_null: "holdsOnly (c(str \<mapsto> JNull)) str r"
  by (simp add: holdsOnly_def)

lemma parsePitch_holdsOnly:
  assumes "holdsOnly c str (pitchOf E str)"
  shows "parsePitch E c (JStr str)
         = (ofPitch (pitchOf E str), c(str \<mapsto> ofPitch (pitchOf E str)))"
proof (cases "noteOf E str")
  case (Some n)
  then have "pitchOf E str = noteOf E str" by (simp add: pitchOf_def)
  with assms Some show ?thesis
    by (simp add: parsePitch_def parseNote_holdsOnly)
next
  case None
  then have po: "pitchOf E str = ivlOf E str" by (simp add: pitchOf_def)
  show ?thesis
  proof (cases "c str = Some (ofPitch (pitchOf E str)) \<and> truthy (ofPitch (pitchOf E str))")
    case True
    then have "c(str \<mapsto> ofPitch (pitchOf E str)) = c" by (simp add: fun_upd_idem)
    with True show ?thesis
      by (simp add: parsePitch_def parseNote_def cached_def)
  next
    case False
    with assms have "c str = None \<or> c str = Some JNull"
      by (cases "pitchOf E str") (auto simp: holdsOnly_def)
    then have "holdsOnly c str (noteOf E str)" by (auto simp: holdsOnly_def)
    then have n: "parseNote E c (JStr str) = (JNull, c(str \<mapsto> JNull))"
      using None by (simp add: parseNote_holdsOnly)
    have "parseIvl E (c(str \<mapsto> JNull)) (JStr str)
          = (ofPitch (ivlOf E str), (c(str \<mapsto> JNull))(str \<mapsto> ofPitch (ivlOf E str)))"
      unfolding parseIvl_def by (rule cached_holdsOnly) (rule holdsOnly_null)
    with n po show ?thesis by (simp add: parsePitch_def)
  qed
qed

text \<open>
  A name that the interval parser does not read keeps its state: whatever the
  two parsers are applied to, the cache holds under it nothing but its note.
\<close>

lemma parsers_keep_holdsOnly:
  assumes "holdsOnly c str (noteOf E str)" and "ivlOf E str = None"
  shows "holdsOnly (snd (parseNote E c v)) str (noteOf E str)"
    and "holdsOnly (snd (parseIvl E c v)) str (noteOf E str)"
  using assms
  by (cases v; auto simp: parseNote_def parseIvl_def cached_def holdsOnly_def
      split: option.splits)+

lemma parsePitch_hit: "c str = Some (JPitch p) \<Longrightarrow> parsePitch E c (JStr str) = (JPitch p, c)"
  by (simp add: parsePitch_def parseNote_def cached_def)

lemma parsePitch_inherited:
  "c str = Some JObject \<Longrightarrow> parsePitch E c (JStr str) = (JObject, c)"
  by (simp add: parsePitch_def parseNote_def cached_def)

lemma parsePitch_result:
  assumes "parsePitch E c v = (JPitch p, c1)"
  obtains str where "v = JStr str" "c1 str = Some (JPitch p)"
proof (cases "parseNote E c v")
  case (Pair r c')
  show ?thesis
  proof (cases "truthy r")
    case True
    with Pair assms have "cached (noteOf E) c v = (JPitch p, c1)"
      by (simp add: parsePitch_def parseNote_def)
    then show ?thesis by (rule cached_result) (rule that)
  next
    case False
    with Pair assms have "cached (ivlOf E) c' v = (JPitch p, c1)"
      by (simp add: parsePitch_def parseIvl_def)
    then show ?thesis by (rule cached_result) (rule that)
  qed
qed

lemma parsePitch_keeps:
  assumes "c str = Some (JPitch p)"
  shows "snd (parsePitch E c v) str = Some (JPitch p)"
proof (cases "parseNote E c v")
  case (Pair r c')
  from assms have c': "c' str = Some (JPitch p)"
    using cached_keeps [of c str p "noteOf E" v] Pair by (simp add: parseNote_def)
  show ?thesis
  proof (cases "truthy r")
    case True
    with Pair c' show ?thesis by (simp add: parsePitch_def)
  next
    case False
    with Pair show ?thesis
      using cached_keeps [of c' str p "ivlOf E" v] c' by (simp add: parsePitch_def parseIvl_def)
  qed
qed

lemma asPitch_pitch: "asPitch E c (JPitch p) = (JPitch p, c)"
  by (simp add: asPitch_def notationFn_def)

lemma asPitch_str: "asPitch E c (JStr s) = parsePitch E c (JStr s)"
  by (simp add: asPitch_def notationFn_def)

lemma asPitch_keeps:
  assumes "c str = Some (JPitch p)"
  shows "snd (asPitch E c v) str = Some (JPitch p)"
  using assms parsePitch_keeps [of c str p E v]
  by (cases v) (simp_all add: asPitch_def notationFn_def)

lemma asPitch_again:
  assumes "asPitch E c a = (JPitch p, c1)" and "asPitch E c1 b = (q, c2)"
  shows "asPitch E c2 a = (JPitch p, c2)"
proof (cases "\<exists>x. a = JPitch x")
  case True
  with assms(1) show ?thesis by (auto simp: asPitch_pitch)
next
  case False
  with assms(1) have "parsePitch E c a = (JPitch p, c1)"
    by (cases a) (simp_all add: asPitch_def notationFn_def)
  then obtain str where a: "a = JStr str" and "c1 str = Some (JPitch p)"
    by (rule parsePitch_result)
  then have "c2 str = Some (JPitch p)"
    using asPitch_keeps [of c1 str p E b] assms(2) by simp
  with a show ?thesis by (simp add: asPitch_str parsePitch_hit)
qed

section \<open>Facts about the serializer and the arithmetic\<close>

lemma strNote_pc: "strNote (PC f) = Some (toLetter (decodeStep f) @ toAcc (decodeAlt f))"
  by (simp add: strNote_def decode_def Let_def strNum_def)

lemma strNote_note:
  "strNote (Note f o') = Some (toLetter (decodeStep f) @ toAcc (decodeAlt f)
      @ numStr (o' + 4 * decodeAlt f + FIFTH_OCTS ! nat (decodeStep f)))"
  by (simp add: strNote_def decode_def Let_def strNum_def)

lemma strIvl_not_interval: "strIvl E (PC f) = None" "strIvl E (Note f o') = None"
  by (simp_all add: strIvl_def)

lemma strIvl_interval:
  "strIvl E (Ivl f o' d) =
     Some (numStr (nullAs0 (dir (decode (Ivl f o' d))) * calcNum (decode (Ivl f o' d)))
           @ altToQ E (calcNum (decode (Ivl f o' d))) (calcAlt E (decode (Ivl f o' d))))"
  by (simp add: strIvl_def Let_def)

lemma strPitch_cases:
  "strPitch E (PC f) = strNote (PC f)"
  "strPitch E (Note f o') = strNote (Note f o')"
  "d \<noteq> 0 \<Longrightarrow> strPitch E (Ivl f o' d) = strIvl E (Ivl f o' d)"
  by (simp_all add: strPitch_def)

lemma calcDir_nonzero: "calcDir f o' \<noteq> 0"
  by (simp add: calcDir_def)

lemma toPitchStr_null: "toPitchStr E JNull = JNull"
  by (simp add: toPitchStr_def notationFn_def)

lemma toPitchStr_not_interval:
  "el3 p = None \<Longrightarrow> \<exists>s. toPitchStr E (JPitch p) = JStr s \<and> strNote p = Some s"
  by (cases p) (simp_all add: toPitchStr_def notationFn_def strPitch_def strNote_def Let_def)

lemma toPitchStr_ivlp:
  "\<exists>s. toPitchStr E (JPitch (Ivl f o' (calcDir f o'))) = JStr s
       \<and> strIvl E (Ivl f o' (calcDir f o')) = Some s"
  by (simp add: toPitchStr_def notationFn_def strPitch_def calcDir_nonzero strIvl_interval)

lemma trBy_interval:
  "trBy (Ivl f o' d) (JPitch (PC qf)) = JPitch (PC (f + qf))"
  "trBy (Ivl f o' d) (JPitch (Note qf qo)) = JPitch (Note (f + qf) (o' + qo))"
  "trBy (Ivl f o' d) (JPitch (Ivl qf qo qd))
     = JPitch (Ivl (f + qf) (o' + qo) (calcDir (f + qf) (o' + qo)))"
  "trBy i JNull = JNull"
  "trBy i JObject = JOutside"
  by (simp_all add: trBy_def Let_def)

lemma transposePitch_eq:
  assumes "asPitch E c a = (pa, c1)" and "asPitch E c1 b = (pb, c2)"
  shows "transposePitch E c a b =
    (toPitchStr E
       (if isInterval pa then (case pa of JPitch i \<Rightarrow> trBy i pb | _ \<Rightarrow> JNull)
        else if isInterval pb then (case pb of JPitch i \<Rightarrow> trBy i pa | _ \<Rightarrow> JNull)
        else JNull), c2)"
  using assms by (simp add: transposePitch_def)

lemma distance_eq:
  assumes "asPitch E c a = (pa, c1)" and "asPitch E c1 b = (pb, c2)"
  shows "distance E c a b = (toIvlStr E (ofPitch (substr pa pb)), c2)"
  using assms by (simp add: distance_def)

lemma transposed_nonnull:
  assumes "isInterval (JPitch i)" and "isPitch q"
  shows "\<exists>s. toPitchStr E (trBy i q) = JStr s"
proof -
  from assms(1) obtain f o' d where i: "i = Ivl f o' d" by (cases i) simp_all
  from assms(2) obtain p where q: "q = JPitch p" by (cases q) simp_all
  show ?thesis
  proof (cases p)
    case (PC qf)
    with i q show ?thesis
      using toPitchStr_not_interval [of "PC (f + qf)" E] by (auto simp: trBy_interval)
  next
    case (Note qf qo)
    with i q show ?thesis
      using toPitchStr_not_interval [of "Note (f + qf) (o' + qo)" E] by (auto simp: trBy_interval)
  next
    case (Ivl qf qo qd)
    with i q show ?thesis
      using toPitchStr_ivlp [of E "f + qf" "o' + qo"] by (auto simp: trBy_interval)
  qed
qed

lemma pitchOf_note: "noteOf E s = Some n \<Longrightarrow> pitchOf E s = Some n"
  by (simp add: pitchOf_def)

lemma pitchOf_ivl: "noteOf E s = None \<Longrightarrow> pitchOf E s = ivlOf E s"
  by (simp add: pitchOf_def)

text \<open>
  The ascending and the descending unison are written differently, whatever the
  quality \<open>altToQ\<close> returns: the one starts with \<^verbatim>\<open>1\<close>, the other with \<^verbatim>\<open>-1\<close>.
\<close>

lemma strIvl_unison_differs: "strIvl E (Ivl 0 0 1) \<noteq> strIvl E (Ivl 0 0 (- 1))"
proof -
  have up: "strIvl E (Ivl 0 0 1) = Some (''1'' @ altToQ E 1 0)"
    by (simp add: strIvl_interval decode_def Let_def decodeStep_def decodeAlt_def unaltered_mod
        STEPS_def FIFTH_OCTS_def FIFTHS_def fifthsSpan_def calcNum_def calcAlt_def isAsc_def
        nullAs0_def numStr_def digits.simps)
  have down: "strIvl E (Ivl 0 0 (- 1)) = Some (''-1'' @ altToQ E 1 (calcAlt E (decode (Ivl 0 0 (- 1)))))"
    by (simp add: strIvl_interval decode_def Let_def decodeStep_def decodeAlt_def unaltered_mod
        STEPS_def FIFTH_OCTS_def FIFTHS_def fifthsSpan_def calcNum_def isAsc_def
        nullAs0_def numStr_def digits.simps)
  show ?thesis unfolding up down by simp
qed

text \<open>
  The distance of two pitch classes before it is written: \<open>simplifyAsc\<close> of the
  interval of the fifths returns an interval of direction 1 whose number is 1..8.
\<close>

lemma simplifyAsc_ivlp0:
  "\<exists>o2. simplifyAsc (ivlp f 0) = Some (Ivl f o2 1)
        \<and> 1 \<le> calcNum (decode (Ivl f o2 1)) \<and> calcNum (decode (Ivl f o2 1)) \<le> 8"
proof (cases "0 \<le> f")
  case True
  then have dir: "calcDir f 0 = 1" by (simp add: calcDir_def)
  let ?o = "- (FIFTH_OCTS ! nat (decodeStep f) + 4 * decodeAlt f)"
  have "simplifyAsc (ivlp f 0) = Some (Ivl f ?o 1)"
    by (simp add: ivlp_def dir Let_def)
  moreover have "calcNum (decode (Ivl f ?o 1)) = decodeStep f + 1"
    by (simp add: calcNum_def decode_def Let_def isAsc_def nullAs0_def)
  ultimately show ?thesis
    using decodeStep_range [of f] by auto
next
  case False
  then have dir: "calcDir f 0 = - 1" by (simp add: calcDir_def)
  define s where "s = decodeStep (- f)"
  define a where "a = decodeAlt (- f)"
  have rng: "0 \<le> s" "s \<le> 6" using decodeStep_range [of "- f"] by (simp_all add: s_def)
  have f: "f = - encPC s a" using encPC_decode [of "- f"] by (simp add: s_def a_def)
  let ?o = "FIFTH_OCTS ! nat s + 4 * a + 1"
  have asc: "simplifyAsc (ivlp f 0) = Some (Ivl f ?o 1)"
    by (simp add: ivlp_def dir Let_def s_def a_def)
  have st: "decodeStep f = (7 - s) mod 7"
    unfolding f by (rule decodeStep_neg_encPC [OF rng])
  have al: "decodeAlt f = (if s = 0 \<or> s = 3 \<or> s = 4 then - a else - a - 1)"
    unfolding f by (rule decodeAlt_neg_encPC [OF rng])
  have num: "calcNum (decode (Ivl f ?o 1))
      = (7 - s) mod 7 + 1 + 7 * (?o + 4 * (if s = 0 \<or> s = 3 \<or> s = 4 then - a else - a - 1)
                                 + FIFTH_OCTS ! nat ((7 - s) mod 7))"
    by (simp add: calcNum_def decode_def Let_def isAsc_def nullAs0_def st al)
  have "1 \<le> calcNum (decode (Ivl f ?o 1)) \<and> calcNum (decode (Ivl f ?o 1)) \<le> 8"
    unfolding num using rng
    by (elim step_cases) (simp_all add: FIFTH_OCTS_def FIFTHS_def fifthsSpan_def)
  with asc show ?thesis by blast
qed

section \<open>Facts about midi numbers\<close>

lemma midi_pitch: "midi E c (JPitch p) =
  ((if hasOct (JPitch p) then ofNum (map_option (\<lambda>h. h + 12) (height p)) else JNull), c)"
  by (simp add: midi_def asNote_def notationFn_def isMidi_def isArr_def)

lemma midi_num: "midi E c (JNum n) = ((if 0 \<le> n \<and> n < 128 then JNum n else JNull), c)"
  by (simp add: midi_def asNote_def notationFn_def parseNote_def cached_def isMidi_def
      isArr_def isValue_def toNum_def)

lemma midi_str_note:
  assumes "holdsOnly c str (noteOf E str)" and "noteOf E str = Some (Note f o')"
  shows "fst (midi E c (JStr str)) = JNum (f * 7 + 12 * o' + 12)"
  using assms
  by (simp add: midi_def asNote_def notationFn_def parseNote_holdsOnly height_def)

lemma midi_str_pc:
  assumes "holdsOnly c str (noteOf E str)" and "noteOf E str = Some (PC f)"
    and "toNumber E str = None"
  shows "fst (midi E c (JStr str)) = JNull"
  using assms
  by (simp add: midi_def asNote_def notationFn_def parseNote_holdsOnly isMidi_def toNum_def)

lemma noteOf_C4: "noteParse E ''C4'' = Some \<lparr> nStep = 0, nAlt = 0, nOct = Some 4 \<rparr>
  \<Longrightarrow> noteOf E ''C4'' = Some (Note 0 4)"
  by (simp add: noteOf_def notePitch_def encode_def encPC_def encOct_def FIFTHS_def FIFTH_OCTS_def fifthsSpan_def)

lemma noteOf_A4: "noteParse E ''A4'' = Some \<lparr> nStep = 5, nAlt = 0, nOct = Some 4 \<rparr>
  \<Longrightarrow> noteOf E ''A4'' = Some (Note 3 3)"
  by (simp add: noteOf_def notePitch_def encode_def encPC_def encOct_def FIFTHS_def FIFTH_OCTS_def fifthsSpan_def)

lemma noteOf_C: "noteParse E ''C'' = Some \<lparr> nStep = 0, nAlt = 0, nOct = None \<rparr>
  \<Longrightarrow> noteOf E ''C'' = Some (PC 0)"
  by (simp add: noteOf_def notePitch_def encode_def encPC_def FIFTHS_def)

text \<open>The frequency in terms of the midi number.\<close>

lemma wellTempered_cases:
  "fst (wellTempered r E c p) =
     (case fst (midi E c p) of
        JNum n \<Rightarrow> if n = 0 then None else Some (2 powr ((real_of_int n - 69) / 12) * r)
      | _ \<Rightarrow> None)"
  by (simp add: wellTempered_def split_beta)

section \<open>Round trips of the encoding\<close>

text \<open>
  C1. For every step in 0..6, every alteration in -4..4 and every octave in -2..9,
  \<open>decode\<close> of the pitch \<open>encode\<close> builds from the three (no direction given)
  returns the same step, alteration and octave, and the direction \<^verbatim>\<open>null\<close>. The
  lemma \<open>decode_encode_note\<close> shows that the bounds on the alteration and the
  octave are not needed.
\<close>

theorem decode_encode_roundtrip:
  assumes "0 \<le> s" "s \<le> 6" "- 4 \<le> a" "a \<le> 4" "- 2 \<le> oc" "oc \<le> 9"
  shows "map_option decode (encode s a (Some oc) None)
         = Some \<lparr> step = s, alt = a, oct = Some oc, dir = None \<rparr>"
  using assms(1,2) by (rule decode_encode_note)

theorem decode_encode_roundtrip_witness:
  "map_option decode (encode 6 1 (Some 3) None)
   = Some \<lparr> step = 6, alt = 1, oct = Some 3, dir = None \<rparr>"
  using decode_encode_roundtrip [of 6 1 3] by simp

text \<open>
  C2, as stated: with a direction -1 or +1 the round trip returns the step, the
  alteration, the octave and the direction that were encoded. It fails for the
  descending major second (step 1, alteration 0, octave 0, direction -1): \<open>encode\<close>
  stores the negated coordinates \<^verbatim>\<open>['tnl', -2, 1, -1]\<close>, which \<open>decode\<close> reads as
  step 6, alteration -1, octave -1.
\<close>

theorem decode_encode_descending_counterexample:
  "map_option decode (encode 1 0 (Some 0) (Some (- 1)))
     = Some \<lparr> step = 6, alt = - 1, oct = Some (- 1), dir = Some (- 1) \<rparr>
   \<and> map_option decode (encode 1 0 (Some 0) (Some (- 1)))
     \<noteq> Some \<lparr> step = 1, alt = 0, oct = Some 0, dir = Some (- 1) \<rparr>"
proof -
  have d: "map_option decode (encode 1 0 (Some 0) (Some (- 1)))
     = Some \<lparr> step = 6, alt = - 1, oct = Some (- 1), dir = Some (- 1) \<rparr>"
    using decode_encode_desc [of 1 0 0] by simp
  show ?thesis unfolding d by simp
qed

text \<open>
  C2, amended. For every step in 0..6, alteration in -4..4 and octave in -2..9:
  with the direction +1 the round trip returns the step, alteration, octave and
  direction that were encoded; with the direction -1 it returns the direction -1
  and the step, alteration and octave of the negated coordinates, that is the step
  \<open>(7 - step) mod 7\<close>, the alteration \<open>- alt\<close> for the steps 0, 3 and 4 and
  \<open>- alt - 1\<close> for the others, the octave \<open>- oct\<close> for the step 0 and
  \<open>- oct - 1\<close> for the others.
\<close>

theorem decode_encode_direction:
  assumes "0 \<le> s" "s \<le> 6" "- 4 \<le> a" "a \<le> 4" "- 2 \<le> oc" "oc \<le> 9"
  shows "map_option decode (encode s a (Some oc) (Some 1))
           = Some \<lparr> step = s, alt = a, oct = Some oc, dir = Some 1 \<rparr>
         \<and> map_option decode (encode s a (Some oc) (Some (- 1)))
           = Some \<lparr> step = (7 - s) mod 7,
                    alt = (if s = 0 \<or> s = 3 \<or> s = 4 then - a else - a - 1),
                    oct = Some (if s = 0 then - oc else - oc - 1),
                    dir = Some (- 1) \<rparr>"
  using decode_encode_asc [OF assms(1,2)] decode_encode_desc [OF assms(1,2)] by blast

theorem decode_encode_direction_witness:
  "map_option decode (encode 4 (- 1) (Some 2) (Some 1))
     = Some \<lparr> step = 4, alt = - 1, oct = Some 2, dir = Some 1 \<rparr>
   \<and> map_option decode (encode 4 (- 1) (Some 2) (Some (- 1)))
     = Some \<lparr> step = 3, alt = 1, oct = Some (- 3), dir = Some (- 1) \<rparr>"
  using decode_encode_direction [of 4 "- 1" 2] by simp

section \<open>Transposition and distance\<close>

text \<open>
  C3, as stated: for a note \<open>a\<close> and an interval \<open>i\<close>, \<open>distance(a, transpose(a, i))\<close>
  is \<open>i\<close>. \<open>transpose\<close> and \<open>distance\<close> return strings, so the result is compared
  with the string of \<open>i\<close>. It fails for the note C4 \<^verbatim>\<open>['tnl', 0, 4]\<close> and the
  descending unison \<^verbatim>\<open>['tnl', 0, 0, -1]\<close> (what \<open>encode\<close> builds from step 0,
  alteration 0, octave 0, direction -1), at the collaborators of the specification
  and a fresh cache: the transposed note is C4, and the distance from C4 to C4 is
  written \<^verbatim>\<open>1P\<close>, where the string of \<open>i\<close> is \<^verbatim>\<open>-1P\<close>. The same holds for the
  strings \<^verbatim>\<open>C4\<close> and \<^verbatim>\<open>-1P\<close>. By \<open>strIvl_unison_differs\<close> the two strings
  differ for every \<open>altToQ\<close>.
\<close>

theorem distance_transpose_counterexample:
  "(case transposePitch specExt freshCache (JPitch (Note 0 4)) (JPitch (Ivl 0 0 (- 1))) of
      (t, c1) \<Rightarrow> fst (distance specExt c1 (JPitch (Note 0 4)) t)) = JStr ''1P''
   \<and> toIvlStr specExt (JPitch (Ivl 0 0 (- 1))) = JStr ''-1P''
   \<and> isPitchNote (JPitch (Note 0 4)) \<and> isInterval (JPitch (Ivl 0 0 (- 1)))
   \<and> encode 0 0 (Some 0) (Some (- 1)) = Some (Ivl 0 0 (- 1))
   \<and> (case transposePitch specExt freshCache (JStr ''C4'') (JStr ''-1P'') of
      (t, c1) \<Rightarrow> fst (distance specExt c1 (JStr ''C4'') t)) = JStr ''1P''"
  by code_simp

text \<open>
  C3, amended. Let \<open>a\<close> resolve (\<open>asPitch\<close>) to a note and \<open>i\<close> to an interval, as
  pitches or as strings, let \<open>s\<close> be the name \<open>strNote\<close> gives the transposed
  note, let the note parser read \<open>s\<close> back as that note, and let the cache hold
  nothing else under \<open>s\<close>. Then \<open>transpose(a, i)\<close> is \<open>s\<close>, and
  \<open>distance(a, s)\<close> is the string of the interval with the fifths and the octaves
  of \<open>i\<close> and the direction \<open>calcDir\<close> of the two: the string of \<open>i\<close> itself
  when the direction of \<open>i\<close> is -1 for \<open>7 * fifths + 12 * octaves < 0\<close> and 1
  otherwise.
\<close>

theorem distance_transpose:
  assumes a: "asPitch E c a = (JPitch (Note f o'), c1)"
      and i: "asPitch E c1 i = (JPitch (Ivl fi oi di), c2)"
      and s: "strNote (Note (fi + f) (oi + o')) = Some s"
      and rd: "noteOf E s = Some (Note (fi + f) (oi + o'))"
      and cache: "holdsOnly c2 s (Some (Note (fi + f) (oi + o')))"
  shows "transposePitch E c a i = (JStr s, c2)
       \<and> fst (distance E c2 a (JStr s)) = toIvlStr E (JPitch (Ivl fi oi (calcDir fi oi)))"
proof
  show "transposePitch E c a i = (JStr s, c2)"
    using s by (simp add: transposePitch_eq [OF a i] trBy_interval toPitchStr_def notationFn_def
        strPitch_cases)
next
  have a2: "asPitch E c2 a = (JPitch (Note f o'), c2)"
    using a i by (rule asPitch_again)
  have "holdsOnly c2 s (pitchOf E s)"
    using cache rd by (simp add: pitchOf_note)
  then have t: "asPitch E c2 (JStr s)
      = (JPitch (Note (fi + f) (oi + o')), c2(s \<mapsto> JPitch (Note (fi + f) (oi + o'))))"
    using rd by (simp add: asPitch_str parsePitch_holdsOnly pitchOf_note)
  show "fst (distance E c2 a (JStr s)) = toIvlStr E (JPitch (Ivl fi oi (calcDir fi oi)))"
    by (simp add: distance_eq [OF a2 t] ivlp_def)
qed

theorem distance_transpose_witness:
  "transposePitch specExt freshCache (JPitch (Note 0 4)) (JPitch (Ivl 4 (- 2) 1))
     = (JStr ''E4'', freshCache)
   \<and> fst (distance specExt freshCache (JPitch (Note 0 4)) (JStr ''E4'')) = JStr ''3M''"
proof -
  have s: "strNote (Note (4 + 0) (- 2 + 4)) = Some ''E4''" by code_simp
  have rd: "noteOf specExt ''E4'' = Some (Note (4 + 0) (- 2 + 4))" by code_simp
  have cache: "holdsOnly freshCache ''E4'' (Some (Note (4 + 0) (- 2 + 4)))"
    by (simp add: holdsOnly_def freshCache_def inheritedNames_def)
  have str: "toIvlStr specExt (JPitch (Ivl 4 (- 2) (calcDir 4 (- 2)))) = JStr ''3M''"
    by code_simp
  show ?thesis
    using distance_transpose [OF asPitch_pitch asPitch_pitch s rd cache] str by simp
qed

text \<open>
  C4, as stated: for \<open>a\<close> and \<open>b\<close> of the same variant,
  \<open>transpose(a, distance(a, b))\<close> is \<open>b\<close>; the result is a string and is compared
  with the string of \<open>b\<close>. It fails for the intervals \<^verbatim>\<open>['tnl', 0, 0, 1]\<close> and
  \<^verbatim>\<open>['tnl', 0, 0, -1]\<close>, the ascending and the descending unison: their distance is
  written \<^verbatim>\<open>1P\<close>, and \<open>a\<close> transposed by it is \<^verbatim>\<open>1P\<close>, where the string of \<open>b\<close>
  is \<^verbatim>\<open>-1P\<close>. The same holds for the strings \<^verbatim>\<open>1P\<close> and \<^verbatim>\<open>-1P\<close>.
\<close>

theorem transpose_distance_counterexample:
  "(case distance specExt freshCache (JPitch (Ivl 0 0 1)) (JPitch (Ivl 0 0 (- 1))) of
      (d, c1) \<Rightarrow> fst (transposePitch specExt c1 (JPitch (Ivl 0 0 1)) d)) = JStr ''1P''
   \<and> toPitchStr specExt (JPitch (Ivl 0 0 (- 1))) = JStr ''-1P''
   \<and> are isInterval (JPitch (Ivl 0 0 1)) (JPitch (Ivl 0 0 (- 1)))
   \<and> encode 0 0 (Some 0) (Some (- 1)) = Some (Ivl 0 0 (- 1))
   \<and> (case distance specExt freshCache (JStr ''1P'') (JStr ''-1P'') of
      (d, c1) \<Rightarrow> fst (transposePitch specExt c1 (JStr ''1P'') d)) = JStr ''1P''"
  by code_simp

text \<open>
  C4, amended. Let \<open>a\<close> and \<open>b\<close> resolve to pitches of the same variant, let \<open>s\<close>
  be the string \<open>strIvl\<close> gives their difference \<open>substr\<close>, let the parsers read
  \<open>s\<close> as no note and as that interval, and let the cache hold nothing else under
  \<open>s\<close>. Then \<open>distance(a, b)\<close> is \<open>s\<close>, and \<open>transpose(a, s)\<close> is the string of
  \<open>b\<close> when \<open>b\<close> is a pitch class or a note; when \<open>b\<close> is an interval it is the
  string of the interval with the fifths and the octaves of \<open>b\<close> and the direction
  \<open>calcDir\<close> of the two.
\<close>

theorem transpose_distance:
  assumes a: "asPitch E c a = (JPitch pa, c1)"
      and b: "asPitch E c1 b = (JPitch pb, c2)"
      and same: "are isPitchClass (JPitch pa) (JPitch pb) \<or> are isPitchNote (JPitch pa) (JPitch pb)
                 \<or> are isInterval (JPitch pa) (JPitch pb)"
      and x: "substr (JPitch pa) (JPitch pb) = Some x"
      and s: "strIvl E x = Some s"
      and rd: "noteOf E s = None" "ivlOf E s = Some x"
      and cache: "holdsOnly c2 s (Some x)"
  shows "distance E c a b = (JStr s, c2)
       \<and> fst (transposePitch E c2 a (JStr s))
           = toPitchStr E (JPitch (case pb of Ivl f o' d \<Rightarrow> Ivl f o' (calcDir f o') | _ \<Rightarrow> pb))"
proof
  show "distance E c a b = (JStr s, c2)"
    using x s by (simp add: distance_eq [OF a b] toIvlStr_def notationFn_def)
next
  have a2: "asPitch E c2 a = (JPitch pa, c2)"
    using a b by (rule asPitch_again)
  have "holdsOnly c2 s (pitchOf E s)"
    using cache rd by (simp add: pitchOf_ivl)
  then have t: "asPitch E c2 (JStr s) = (JPitch x, c2(s \<mapsto> JPitch x))"
    using rd by (simp add: asPitch_str parsePitch_holdsOnly pitchOf_ivl)
  let ?R = "if isInterval (JPitch pa)
              then (case JPitch pa of JPitch i \<Rightarrow> trBy i (JPitch x) | _ \<Rightarrow> JNull)
            else if isInterval (JPitch x)
              then (case JPitch x of JPitch i \<Rightarrow> trBy i (JPitch pa) | _ \<Rightarrow> JNull)
            else JNull"
  have r: "?R = JPitch (case pb of Ivl f o' d \<Rightarrow> Ivl f o' (calcDir f o') | _ \<Rightarrow> pb)"
    using same x
    by (cases pa; cases pb)
       (auto simp: are_def ivlp_def trBy_interval Let_def split: if_splits)
  have "transposePitch E c2 a (JStr s) = (toPitchStr E ?R, c2(s \<mapsto> JPitch x))"
    by (rule transposePitch_eq [OF a2 t])
  then show "fst (transposePitch E c2 a (JStr s))
           = toPitchStr E (JPitch (case pb of Ivl f o' d \<Rightarrow> Ivl f o' (calcDir f o') | _ \<Rightarrow> pb))"
    by (simp only: r fst_conv)
qed

theorem transpose_distance_witness:
  "distance specExt freshCache (JPitch (Note 0 4)) (JPitch (Note 4 2)) = (JStr ''3M'', freshCache)
   \<and> fst (transposePitch specExt freshCache (JPitch (Note 0 4)) (JStr ''3M'')) = JStr ''E4''"
proof -
  have same: "are isPitchClass (JPitch (Note 0 4)) (JPitch (Note 4 2))
      \<or> are isPitchNote (JPitch (Note 0 4)) (JPitch (Note 4 2))
      \<or> are isInterval (JPitch (Note 0 4)) (JPitch (Note 4 2))"
    by (simp add: are_def)
  have x: "substr (JPitch (Note 0 4)) (JPitch (Note 4 2)) = Some (Ivl 4 (- 2) 1)" by code_simp
  have s: "strIvl specExt (Ivl 4 (- 2) 1) = Some ''3M''" by code_simp
  have rd: "noteOf specExt ''3M'' = None" "ivlOf specExt ''3M'' = Some (Ivl 4 (- 2) 1)"
    by code_simp+
  have cache: "holdsOnly freshCache ''3M'' (Some (Ivl 4 (- 2) 1))"
    by (simp add: holdsOnly_def freshCache_def inheritedNames_def)
  have str: "toPitchStr specExt (JPitch (Note 4 2)) = JStr ''E4''" by code_simp
  show ?thesis
    using transpose_distance [OF asPitch_pitch asPitch_pitch same x s rd cache] str by simp
qed

text \<open>
  C5. The distance of two pitch classes is an ascending interval: \<open>substr\<close>
  returns an interval of direction 1, for the operands in either order (the
  theorem is about every pair), and the string \<open>distance\<close> returns starts with
  its number, which is between 1 and 8, without a sign.
\<close>

theorem distance_pitch_classes_ascending:
  assumes "asPitch E c a = (JPitch (PC fa), c1)" and "asPitch E c1 b = (JPitch (PC fb), c2)"
  shows "\<exists>o2 n. substr (JPitch (PC fa)) (JPitch (PC fb)) = Some (Ivl (fb - fa) o2 1)
          \<and> 1 \<le> n \<and> n \<le> 8
          \<and> distance E c a b = (JStr (numStr n @ altToQ E n (decodeAlt (fb - fa))), c2)"
proof -
  obtain o2 where r: "simplifyAsc (ivlp (fb - fa) 0) = Some (Ivl (fb - fa) o2 1)"
    and n: "1 \<le> calcNum (decode (Ivl (fb - fa) o2 1))" "calcNum (decode (Ivl (fb - fa) o2 1)) \<le> 8"
    using simplifyAsc_ivlp0 [of "fb - fa"] by blast
  have d: "dir (decode (Ivl (fb - fa) o2 1)) = Some 1" "alt (decode (Ivl (fb - fa) o2 1)) = decodeAlt (fb - fa)"
    by (simp_all add: decode_def Let_def)
  have "distance E c a b
      = (JStr (numStr (calcNum (decode (Ivl (fb - fa) o2 1)))
               @ altToQ E (calcNum (decode (Ivl (fb - fa) o2 1))) (decodeAlt (fb - fa))), c2)"
    using r d
    by (simp add: distance_eq [OF assms] toIvlStr_def notationFn_def strIvl_interval
        nullAs0_def calcAlt_def isAsc_def)
  with r n show ?thesis by auto
qed

theorem distance_pitch_classes_ascending_witness:
  "substr (JPitch (PC 1)) (JPitch (PC 5)) = Some (Ivl 4 (- 2) 1)
   \<and> distance specExt freshCache (JPitch (PC 1)) (JPitch (PC 5)) = (JStr ''3M'', freshCache)
   \<and> substr (JPitch (PC 5)) (JPitch (PC 1)) = Some (Ivl (- 4) 3 1)
   \<and> distance specExt freshCache (JPitch (PC 5)) (JPitch (PC 1)) = (JStr ''6m'', freshCache)"
proof -
  have 1: "substr (JPitch (PC 1)) (JPitch (PC 5)) = Some (Ivl 4 (- 2) 1)" by code_simp
  have 2: "substr (JPitch (PC 5)) (JPitch (PC 1)) = Some (Ivl (- 4) 3 1)" by code_simp
  obtain o2 n where "substr (JPitch (PC 1)) (JPitch (PC 5)) = Some (Ivl (5 - 1) o2 1)"
    and "distance specExt freshCache (JPitch (PC 1)) (JPitch (PC 5))
         = (JStr (numStr n @ altToQ specExt n (decodeAlt (5 - 1))), freshCache)"
    using distance_pitch_classes_ascending
      [OF asPitch_pitch [of specExt freshCache "PC 1"] asPitch_pitch [of specExt freshCache "PC 5"]]
    by blast
  then have c: "snd (distance specExt freshCache (JPitch (PC 1)) (JPitch (PC 5))) = freshCache"
    by simp
  have 3: "fst (distance specExt freshCache (JPitch (PC 1)) (JPitch (PC 5))) = JStr ''3M''"
    by code_simp
  have 4: "fst (distance specExt freshCache (JPitch (PC 5)) (JPitch (PC 1))) = JStr ''6m''"
    by code_simp
  have c': "snd (distance specExt freshCache (JPitch (PC 5)) (JPitch (PC 1))) = freshCache"
    by (simp add: distance_def asPitch_pitch)
  show ?thesis
    using 1 2 3 4 c c' by (simp add: prod_eq_iff)
qed

text \<open>
  C6, as stated: \<open>transpose\<close> returns \<^verbatim>\<open>null\<close> whenever both operands are intervals.
  It fails for the major second \<^verbatim>\<open>['tnl', 2, -1, 1]\<close> and the major third
  \<^verbatim>\<open>['tnl', 4, -2, 1]\<close>: \<open>trBy\<close> adds them, and the result is the augmented
  fourth \<^verbatim>\<open>4A\<close>. The same holds for the strings \<^verbatim>\<open>2M\<close> and \<^verbatim>\<open>3M\<close> in a fresh
  module.
\<close>

theorem transpose_two_intervals_counterexample:
  "fst (transposePitch specExt freshCache (JPitch (Ivl 2 (- 1) 1)) (JPitch (Ivl 4 (- 2) 1)))
     = JStr ''4A''
   \<and> isInterval (JPitch (Ivl 2 (- 1) 1)) \<and> isInterval (JPitch (Ivl 4 (- 2) 1))
   \<and> fst (transposePitch specExt freshCache (JStr ''2M'') (JStr ''3M'')) = JStr ''4A''"
  by code_simp

text \<open>
  C6, amended. With \<open>pa\<close> and \<open>pb\<close> what the operands resolve to (\<open>asPitch\<close>: a
  pitch, \<^verbatim>\<open>null\<close>, or an inherited property of the cache), for every cache:
  \<open>transpose(a, b)\<close> returns \<^verbatim>\<open>null\<close> whenever neither of the two is an interval,
  in particular whenever neither operand parses to a pitch; when both are
  intervals it returns a string, that of their sum, the interval of the added
  fifths and octaves with the direction \<open>calcDir\<close> of the two; and it returns
  something other than \<^verbatim>\<open>null\<close> only when at least one of the two is an interval.
\<close>

theorem transpose_intervals:
  assumes "asPitch E c a = (pa, c1)" and "asPitch E c1 b = (pb, c2)"
  shows "(\<not> isInterval pa \<and> \<not> isInterval pb \<longrightarrow> fst (transposePitch E c a b) = JNull)
       \<and> (\<not> isPitch pa \<and> \<not> isPitch pb \<longrightarrow> fst (transposePitch E c a b) = JNull)
       \<and> (pa = JPitch (Ivl f1 o1 d1) \<and> pb = JPitch (Ivl f2 o2 d2) \<longrightarrow>
            (\<exists>s. strIvl E (Ivl (f1 + f2) (o1 + o2) (calcDir (f1 + f2) (o1 + o2))) = Some s
                 \<and> fst (transposePitch E c a b) = JStr s))
       \<and> (fst (transposePitch E c a b) \<noteq> JNull \<longrightarrow> isInterval pa \<or> isInterval pb)"
proof -
  have none: "fst (transposePitch E c a b) = JNull" if "\<not> isInterval pa" "\<not> isInterval pb"
    using that by (simp add: transposePitch_eq [OF assms] toPitchStr_null)
  have nopitch: "\<not> isInterval v" if "\<not> isPitch v" for v
    using that by (cases v) simp_all
  have both: "\<exists>s. strIvl E (Ivl (f1 + f2) (o1 + o2) (calcDir (f1 + f2) (o1 + o2))) = Some s
                 \<and> fst (transposePitch E c a b) = JStr s"
    if "pa = JPitch (Ivl f1 o1 d1) \<and> pb = JPitch (Ivl f2 o2 d2)"
    using that toPitchStr_ivlp [of E "f1 + f2" "o1 + o2"]
    by (auto simp: transposePitch_eq [OF assms] trBy_interval)
  from none nopitch both show ?thesis by blast
qed

theorem transpose_intervals_witness:
  "fst (transposePitch specExt freshCache (JPitch (Ivl 2 (- 1) 1)) (JPitch (Ivl 4 (- 2) 1)))
     = JStr ''4A''
   \<and> fst (transposePitch specExt freshCache (JPitch (Note 0 4)) (JPitch (PC 1))) = JNull
   \<and> fst (transposePitch specExt freshCache (JStr ''constructor'') (JStr ''xyz'')) = JNull"
proof -
  have s: "strIvl specExt (Ivl (2 + 4) (- 1 + - 2) (calcDir (2 + 4) (- 1 + - 2))) = Some ''4A''"
    by code_simp
  have 1: "fst (transposePitch specExt freshCache (JPitch (Ivl 2 (- 1) 1)) (JPitch (Ivl 4 (- 2) 1)))
     = JStr ''4A''"
    using transpose_intervals
        [OF asPitch_pitch [of specExt freshCache "Ivl 2 (- 1) 1"]
            asPitch_pitch [of specExt freshCache "Ivl 4 (- 2) 1"],
         of 2 "- 1" 1 4 "- 2" 1] s
    by simp
  have 2: "fst (transposePitch specExt freshCache (JPitch (Note 0 4)) (JPitch (PC 1))) = JNull"
    using transpose_intervals
        [OF asPitch_pitch [of specExt freshCache "Note 0 4"]
            asPitch_pitch [of specExt freshCache "PC 1"]]
    by simp
  have a: "asPitch specExt freshCache (JStr ''constructor'') = (JObject, freshCache)"
    by (simp add: asPitch_str parsePitch_inherited freshCache_def inheritedNames_def)
  have "holdsOnly freshCache ''xyz'' (pitchOf specExt ''xyz'')"
    by (simp add: holdsOnly_def freshCache_def inheritedNames_def)
  then have b: "asPitch specExt freshCache (JStr ''xyz'')
      = (ofPitch (pitchOf specExt ''xyz''), freshCache(''xyz'' \<mapsto> ofPitch (pitchOf specExt ''xyz'')))"
    by (simp add: asPitch_str parsePitch_holdsOnly)
  have p: "pitchOf specExt ''xyz'' = None" by code_simp
  have 3: "fst (transposePitch specExt freshCache (JStr ''constructor'') (JStr ''xyz'')) = JNull"
    using transpose_intervals [OF a b] p by simp
  from 1 2 3 show ?thesis by simp
qed

text \<open>
  Where one operand is the name of an inherited property of the cache and the
  other an interval, the source adds the entries of the interval to
  \<^verbatim>\<open>undefined\<close>: the result is computed from an array of \<^verbatim>\<open>NaN\<close> and is not
  \<^verbatim>\<open>null\<close>. The model says no more of it than that it is outside its values; the
  theorem above makes no statement on this case.
\<close>

lemma transpose_inherited_operand:
  "fst (transposePitch specExt freshCache (JStr ''constructor'') (JStr ''3M'')) = JOutside"
  by code_simp

section \<open>Midi numbers and frequencies\<close>

text \<open>
  The values of \<open>midi\<close> and \<open>toFreq\<close> where the cache holds under each name
  nothing but its note, as the cache of a fresh module does: 60 at \<^verbatim>\<open>C4\<close>,
  \<^verbatim>\<open>null\<close> at every pitch class, at the name \<^verbatim>\<open>C\<close>, at 128 and at -1, and 440 at
  \<^verbatim>\<open>A4\<close>. The hypotheses say what the note parser reads in the three names and
  that \<^verbatim>\<open>C\<close> is no number.
\<close>

lemma midi_boundaries:
  assumes "noteParse E ''C4'' = Some \<lparr> nStep = 0, nAlt = 0, nOct = Some 4 \<rparr>"
      and "noteParse E ''A4'' = Some \<lparr> nStep = 5, nAlt = 0, nOct = Some 4 \<rparr>"
      and "noteParse E ''C'' = Some \<lparr> nStep = 0, nAlt = 0, nOct = None \<rparr>"
      and "toNumber E ''C'' = None"
      and "holdsOnly c ''C4'' (noteOf E ''C4'')"
      and "holdsOnly c ''A4'' (noteOf E ''A4'')"
      and "holdsOnly c ''C'' (noteOf E ''C'')"
  shows "fst (midi E c (JStr ''C4'')) = JNum 60
       \<and> fst (midi E c (JPitch (PC f))) = JNull
       \<and> fst (midi E c (JStr ''C'')) = JNull
       \<and> fst (midi E c (JNum 128)) = JNull
       \<and> fst (midi E c (JNum (- 1))) = JNull
       \<and> fst (toFreq E c (JStr ''A4'')) = Some 440"
proof -
  have c4: "fst (midi E c (JStr ''C4'')) = JNum 60"
    using midi_str_note [OF assms(5) noteOf_C4 [OF assms(1)]] by simp
  have a4: "fst (midi E c (JStr ''A4'')) = JNum 69"
    using midi_str_note [OF assms(6) noteOf_A4 [OF assms(2)]] by simp
  have pc: "fst (midi E c (JStr ''C'')) = JNull"
    by (rule midi_str_pc [OF assms(7) noteOf_C [OF assms(3)] assms(4)])
  have freq: "fst (toFreq E c (JStr ''A4'')) = Some 440"
    using a4 by (simp add: toFreq_def wellTempered_def split_beta)
  show ?thesis
    using c4 pc freq by (simp add: midi_pitch midi_num)
qed

lemma midi_boundaries_fresh:
  "fst (midi specExt freshCache (JStr ''C4'')) = JNum 60
   \<and> fst (midi specExt freshCache (JPitch (PC 0))) = JNull
   \<and> fst (midi specExt freshCache (JStr ''C'')) = JNull
   \<and> fst (midi specExt freshCache (JNum 128)) = JNull
   \<and> fst (midi specExt freshCache (JNum (- 1))) = JNull
   \<and> fst (toFreq specExt freshCache (JStr ''A4'')) = Some 440"
proof -
  have p1: "noteParse specExt ''C4'' = Some \<lparr> nStep = 0, nAlt = 0, nOct = Some 4 \<rparr>"
    by code_simp
  have p2: "noteParse specExt ''A4'' = Some \<lparr> nStep = 5, nAlt = 0, nOct = Some 4 \<rparr>"
    by code_simp
  have p3: "noteParse specExt ''C'' = Some \<lparr> nStep = 0, nAlt = 0, nOct = None \<rparr>"
    by code_simp
  have p4: "toNumber specExt ''C'' = None"
    by code_simp
  have h: "holdsOnly freshCache ''C4'' (noteOf specExt ''C4'')"
     "holdsOnly freshCache ''A4'' (noteOf specExt ''A4'')"
     "holdsOnly freshCache ''C'' (noteOf specExt ''C'')"
    by (simp_all add: holdsOnly_def freshCache_def inheritedNames_def)
  show ?thesis
    by (rule midi_boundaries [OF p1 p2 p3 p4 h])
qed

text \<open>
  C7, at the name \<^verbatim>\<open>A4\<close>. Of the values the claim states, those at the pitch
  classes and at the numbers hold for every cache, and those at \<^verbatim>\<open>C4\<close> and \<^verbatim>\<open>C\<close>
  for every cache that holds under the name nothing but its note
  (\<open>midi_boundaries\<close>), as the fresh cache does and as the two parsers keep it
  for a name the interval parser does not read (\<open>parsers_keep_holdsOnly\<close>). The
  one at \<^verbatim>\<open>A4\<close> holds in a fresh module and no longer once the exported
  \<open>parseIvl\<close> has been applied to \<^verbatim>\<open>A4\<close>:
  \<open>parseNote\<close> and \<open>parseIvl\<close> write to one cache under the same key, \<^verbatim>\<open>A4\<close> names
  the note and, for the interval parser, the augmented fourth, and the note
  parser then returns the interval \<^verbatim>\<open>['tnl', 6, -3, 1]\<close> that the cache holds.
  From it \<open>midi("A4")\<close> is 18 and \<open>toFreq("A4")\<close> is \<open>440 * 2^(-17/4)\<close>, about
  23.12, for every pair of parsers that read \<^verbatim>\<open>A4\<close> in the two ways and every
  cache that holds nothing under \<^verbatim>\<open>A4\<close> before.
\<close>

theorem toFreq_after_parseIvl:
  assumes "noteParse E ''A4'' = Some \<lparr> nStep = 5, nAlt = 0, nOct = Some 4 \<rparr>"
      and "ivlParse E ''A4'' = Some \<lparr> iSimple = 4, iAlt = 1, iOct = 0, iDir = 1 \<rparr>"
      and "c ''A4'' = None"
  shows "fst (midi E c (JStr ''A4'')) = JNum 69
       \<and> fst (toFreq E c (JStr ''A4'')) = Some 440
       \<and> fst (parseIvl E c (JStr ''A4'')) = JPitch (Ivl 6 (- 3) 1)
       \<and> fst (parseNote E (snd (parseIvl E c (JStr ''A4''))) (JStr ''A4'')) = JPitch (Ivl 6 (- 3) 1)
       \<and> fst (midi E (snd (parseIvl E c (JStr ''A4''))) (JStr ''A4'')) = JNum 18
       \<and> fst (toFreq E (snd (parseIvl E c (JStr ''A4''))) (JStr ''A4''))
           = Some (2 powr (- 17 / 4) * 440)
       \<and> fst (toFreq E (snd (parseIvl E c (JStr ''A4''))) (JStr ''A4'')) \<noteq> Some 440"
proof -
  have h: "holdsOnly c ''A4'' r" for r
    using assms(3) by (simp add: holdsOnly_def)
  have a4: "fst (midi E c (JStr ''A4'')) = JNum 69"
    using midi_str_note [OF h noteOf_A4 [OF assms(1)]] by simp
  have freq: "fst (toFreq E c (JStr ''A4'')) = Some 440"
    using a4 by (simp add: toFreq_def wellTempered_cases)
  have iv: "ivlOf E ''A4'' = Some (Ivl 6 (- 3) 1)"
    using assms(2)
    by (simp add: ivlOf_def ivl_def encode_def encPC_def encOct_def FIFTHS_def FIFTH_OCTS_def
        fifthsSpan_def)
  have p: "parseIvl E c (JStr ''A4'') = (JPitch (Ivl 6 (- 3) 1), c(''A4'' \<mapsto> JPitch (Ivl 6 (- 3) 1)))"
    using assms(3) iv by (simp add: parseIvl_def cached_def)
  have n: "parseNote E (c(''A4'' \<mapsto> JPitch (Ivl 6 (- 3) 1))) (JStr ''A4'')
      = (JPitch (Ivl 6 (- 3) 1), c(''A4'' \<mapsto> JPitch (Ivl 6 (- 3) 1)))"
    by (simp add: parseNote_def cached_hit)
  have m: "fst (midi E (c(''A4'' \<mapsto> JPitch (Ivl 6 (- 3) 1))) (JStr ''A4'')) = JNum 18"
    by (simp add: midi_def asNote_def notationFn_def n height_def)
  have f: "fst (toFreq E (c(''A4'' \<mapsto> JPitch (Ivl 6 (- 3) 1))) (JStr ''A4''))
      = Some (2 powr (- 17 / 4) * 440)"
    using m by (simp add: toFreq_def wellTempered_cases)
  have "(2::real) powr (- 17 / 4) < 1"
    by (simp add: powr_less_one)
  then have ne: "(2::real) powr (- 17 / 4) * 440 \<noteq> 440" by simp
  show ?thesis
    using a4 freq p n m f ne by simp
qed

theorem toFreq_after_parseIvl_witness:
  "fst (toFreq specExt freshCache (JStr ''A4'')) = Some 440
   \<and> fst (midi specExt (snd (parseIvl specExt freshCache (JStr ''A4''))) (JStr ''A4'')) = JNum 18
   \<and> fst (toFreq specExt (snd (parseIvl specExt freshCache (JStr ''A4''))) (JStr ''A4''))
       \<noteq> Some 440"
proof -
  have p1: "noteParse specExt ''A4'' = Some \<lparr> nStep = 5, nAlt = 0, nOct = Some 4 \<rparr>"
    by code_simp
  have p2: "ivlParse specExt ''A4'' = Some \<lparr> iSimple = 4, iAlt = 1, iOct = 0, iDir = 1 \<rparr>"
    by code_simp
  have p3: "freshCache ''A4'' = None"
    by (simp add: freshCache_def inheritedNames_def)
  show ?thesis
    using toFreq_after_parseIvl [of specExt freshCache, OF p1 p2 p3] by simp
qed

text \<open>
  C8, at the midi number 0. The note C-1 \<^verbatim>\<open>['tnl', 0, -1]\<close> has the midi number 0,
  and so has the number 0 itself: \<open>midi\<close> returns 0, not \<^verbatim>\<open>null\<close>, and the
  frequency function returns \<^verbatim>\<open>null\<close> for every reference, since the test
  \<^verbatim>\<open>m ?\<close> fails on 0.
\<close>

theorem wellTempered_midi_zero:
  "fst (midi E c (JPitch (Note 0 (- 1)))) = JNum 0
   \<and> fst (wellTempered r E c (JPitch (Note 0 (- 1)))) = None
   \<and> fst (midi E c (JNum 0)) = JNum 0
   \<and> fst (wellTempered r E c (JNum 0)) = None"
  by (simp add: wellTempered_def midi_pitch midi_num height_def)

section \<open>The serializer on pitch classes\<close>

text \<open>
  C9, as stated: the serializer returns \<^verbatim>\<open>null\<close> for a pitch that is neither a
  note nor an interval. It fails for the pitch class \<^verbatim>\<open>['tnl', 0]\<close>: \<open>strNote\<close>
  returns \<^verbatim>\<open>C\<close>, and so does \<open>toPitchStr\<close>, which \<open>transpose\<close> applies to its
  result.
\<close>

theorem strNote_pitch_class_counterexample:
  "strNote (PC 0) = Some ''C'' \<and> toPitchStr specExt (JPitch (PC 0)) = JStr ''C''
   \<and> \<not> isPitchNote (JPitch (PC 0)) \<and> \<not> isInterval (JPitch (PC 0))"
  by (simp add: strNote_pc toPitchStr_def notationFn_def strPitch_def decodeStep_def decodeAlt_def
      unaltered_mod STEPS_def toLetter_def jsRem_def toAcc_def fillStr_def)

text \<open>
  C9, amended. For every pitch class, the serializer of intervals \<open>strIvl\<close> (and
  \<open>toIvlStr\<close>) returns \<^verbatim>\<open>null\<close>; the serializer of notes \<open>strNote\<close> (and
  \<open>toPitchStr\<close>) returns the name of the pitch class, its letter and accidentals
  with no octave.
\<close>

theorem serializer_pitch_class:
  "strIvl E (PC f) = None
   \<and> toIvlStr E (JPitch (PC f)) = JNull
   \<and> strNote (PC f) = Some (toLetter (decodeStep f) @ toAcc (decodeAlt f))
   \<and> toPitchStr E (JPitch (PC f)) = JStr (toLetter (decodeStep f) @ toAcc (decodeAlt f))"
  by (simp add: strIvl_not_interval strNote_pc toIvlStr_def toPitchStr_def notationFn_def
      strPitch_cases)

section \<open>Simplification\<close>

text \<open>
  C10. For every interval \<open>i\<close>, \<open>simplify(i)\<close> is an interval with the fifths and
  the direction of \<open>i\<close>; only the octaves change. So \<open>decode\<close> reads the same
  step, alteration and direction in both.
\<close>

theorem simplify_frame:
  "\<exists>o2. simplify (Ivl f o1 d) = Some (Ivl f o2 d)
        \<and> step (decode (Ivl f o2 d)) = step (decode (Ivl f o1 d))
        \<and> alt (decode (Ivl f o2 d)) = alt (decode (Ivl f o1 d))
        \<and> dir (decode (Ivl f o2 d)) = dir (decode (Ivl f o1 d))"
  by (simp add: Let_def decode_def)

end
